theory Spec2Isabelle
  imports Complex_Main "HOL-Library.Sublist"
begin

section \<open>Values of the program\<close>

text \<open>
  The backend (\<^verbatim>\<open>backend/app/main.py\<close>) reads its request body, the taste-graph replies and
  the model completions as untyped JSON, so every operation of the source is modelled on
  the values \<^verbatim>\<open>json.loads\<close> can produce.  A string is its UTF-8 byte sequence.  A Python
  \<^verbatim>\<open>float\<close> is either a finite number, kept as the rational it denotes (the two zeros are
  one value here: they compare equal, are both falsy, and the program never prints one),
  or one of the three special values.
\<close>

datatype pyfloat = Finite rat | PosInf | NegInf | NaN

datatype json =
    JNull
  | JBool bool
  | JInt int
  | JFloat pyfloat
  | JStr string
  | JArr "json list"
  | JObj "(string \<times> json) list"

text \<open>
  Exceptions are values.  \<open>KeyError\<close> carries the missing key and \<open>HTTPException\<close> its status
  code and detail; the other classes carry the interpreter's or the library's message.
\<close>

datatype exn =
    KeyError string
  | HTTPException nat string
  | TypeError string
  | AttributeError string
  | IndexError string
  | OverflowError string
  | JSONDecodeError string
  | ProviderError string

subsection \<open>Text\<close>

fun digit_char :: "nat \<Rightarrow> char" where
  "digit_char n = char_of (48 + n)"

fun str_nat :: "nat \<Rightarrow> string" where
  "str_nat n = (if n < 10 then [digit_char n] else str_nat (n div 10) @ [digit_char (n mod 10)])"

text \<open>
  \<^verbatim>\<open>str(e)\<close>, as the handler interpolates it into the detail of its own error.  For a
  \<^verbatim>\<open>KeyError\<close> it is the \<^verbatim>\<open>repr\<close> of the key (the keys the handler looks up are plain
  identifiers, quoted with apostrophes); for the framework's \<^verbatim>\<open>HTTPException\<close> it is
  Starlette's \<^verbatim>\<open>f"{self.status_code}: {self.detail}"\<close>.
\<close>

fun str_exn :: "exn \<Rightarrow> string" where
  "str_exn (KeyError k) = [CHR 0x27] @ k @ [CHR 0x27]"
| "str_exn (HTTPException sc d) = str_nat sc @ '': '' @ d"
| "str_exn (TypeError m) = m"
| "str_exn (AttributeError m) = m"
| "str_exn (IndexError m) = m"
| "str_exn (OverflowError m) = m"
| "str_exn (JSONDecodeError m) = m"
| "str_exn (ProviderError m) = m"

text \<open>\<^verbatim>\<open>needle in hay\<close> on two strings: \<open>needle\<close> occurs as a contiguous run.\<close>

fun str_in :: "string \<Rightarrow> string \<Rightarrow> bool" where
  "str_in n [] = (n = [])"
| "str_in n (c # cs) = (prefix n (c # cs) \<or> str_in n cs)"

text \<open>
  \<^verbatim>\<open>str.lower\<close>.  The letters A to Z are mapped to a to z and every other byte is kept.
  Python also lowers letters outside ASCII; the categories the handler searches for
  (\<^verbatim>\<open>artist\<close>, \<^verbatim>\<open>movie\<close>, \<^verbatim>\<open>brand\<close>) are ASCII, and no letter outside ASCII lowers to a
  text that completes one of them, so the search sees the same result.
\<close>

definition lower_char :: "char \<Rightarrow> char" where
  "lower_char c = (let n = of_char c :: nat in if 65 \<le> n \<and> n \<le> 90 then char_of (n + 32) else c)"

definition lower :: "string \<Rightarrow> string" where
  "lower s = map lower_char s"

text \<open>
  \<^verbatim>\<open>str.strip\<close> removes white space at both ends: the ASCII characters 9 to 13 and 28
  to 32, and the UTF-8 sequences of U+0085, U+00A0, U+1680, U+2000 to U+200A, U+2028,
  U+2029, U+202F, U+205F and U+3000.
\<close>

definition whitespace :: "string list" where
  "whitespace =
     map (\<lambda>n. [char_of n]) ([9, 10, 11, 12, 13, 28, 29, 30, 31, 32] :: nat list)
     @ map (map char_of) ([[0xC2, 0x85], [0xC2, 0xA0], [0xE1, 0x9A, 0x80]] :: nat list list)
     @ map (\<lambda>n. map char_of [0xE2, 0x80, n]) ([0x80 ..< 0x8B] :: nat list)
     @ map (map char_of)
         ([[0xE2, 0x80, 0xA8], [0xE2, 0x80, 0xA9], [0xE2, 0x80, 0xAF],
           [0xE2, 0x81, 0x9F], [0xE3, 0x80, 0x80]] :: nat list list)"

function lstrip_with :: "string list \<Rightarrow> string \<Rightarrow> string" where
  "lstrip_with ws [] = []"
| "lstrip_with ws (c # cs) =
     (case find (\<lambda>w. w \<noteq> [] \<and> prefix w (c # cs)) ws of
        None \<Rightarrow> c # cs
      | Some w \<Rightarrow> lstrip_with ws (drop (length w) (c # cs)))"
  by pat_completeness auto
termination
  by (relation "measure (\<lambda>(ws, s). length s)") (auto simp: find_Some_iff)

definition strip :: "string \<Rightarrow> string" where
  "strip s = rev (lstrip_with (map rev whitespace) (rev (lstrip_with whitespace s)))"

subsection \<open>Operations of the interpreter on JSON values\<close>

text \<open>Truth value of a JSON value, as \<^verbatim>\<open>if not x\<close> tests it.\<close>

fun truthy :: "json \<Rightarrow> bool" where
  "truthy JNull = False"
| "truthy (JBool b) = b"
| "truthy (JInt n) = (n \<noteq> 0)"
| "truthy (JFloat f) = (f \<noteq> Finite 0)"
| "truthy (JStr s) = (s \<noteq> [])"
| "truthy (JArr xs) = (xs \<noteq> [])"
| "truthy (JObj kvs) = (kvs \<noteq> [])"

fun type_name :: "json \<Rightarrow> string" where
  "type_name JNull = ''NoneType''"
| "type_name (JBool b) = ''bool''"
| "type_name (JInt n) = ''int''"
| "type_name (JFloat f) = ''float''"
| "type_name (JStr s) = ''str''"
| "type_name (JArr xs) = ''list''"
| "type_name (JObj kvs) = ''dict''"

definition no_attribute :: "json \<Rightarrow> string \<Rightarrow> exn" where
  "no_attribute x a =
     AttributeError ([CHR 0x27] @ type_name x @ [CHR 0x27] @ '' object has no attribute ''
                     @ [CHR 0x27] @ a @ [CHR 0x27])"

definition dict_get :: "(string \<times> json) list \<Rightarrow> string \<Rightarrow> json \<Rightarrow> json" where
  "dict_get kvs k d = (case map_of kvs k of None \<Rightarrow> d | Some v \<Rightarrow> v)"

text \<open>\<^verbatim>\<open>x.get(k, d)\<close>: only a dict has the method.\<close>

fun py_get :: "json \<Rightarrow> string \<Rightarrow> json \<Rightarrow> exn + json" where
  "py_get (JObj kvs) k d = Inr (dict_get kvs k d)"
| "py_get x k d = Inl (no_attribute x ''get'')"

text \<open>\<^verbatim>\<open>x[k]\<close> with a string \<open>k\<close>.\<close>

fun py_subscript :: "json \<Rightarrow> string \<Rightarrow> exn + json" where
  "py_subscript (JObj kvs) k = (case map_of kvs k of None \<Rightarrow> Inl (KeyError k) | Some v \<Rightarrow> Inr v)"
| "py_subscript (JStr s) k = Inl (TypeError ''string indices must be integers'')"
| "py_subscript (JArr xs) k = Inl (TypeError ''list indices must be integers or slices, not str'')"
| "py_subscript x k =
     Inl (TypeError ([CHR 0x27] @ type_name x @ [CHR 0x27] @ '' object is not subscriptable''))"

text \<open>
  \<^verbatim>\<open>for item in x\<close>: the elements of a list, the keys of a dict, the characters of a string.
  A string yields one item per byte here and one per code point in Python; the loops of
  this program either reject the first item of a string or skip every one-character item,
  so they cannot tell the difference.
\<close>

fun py_iter :: "json \<Rightarrow> exn + json list" where
  "py_iter (JArr xs) = Inr xs"
| "py_iter (JObj kvs) = Inr (map (\<lambda>kv. JStr (fst kv)) kvs)"
| "py_iter (JStr s) = Inr (map (\<lambda>c. JStr [c]) s)"
| "py_iter x =
     Inl (TypeError ([CHR 0x27] @ type_name x @ [CHR 0x27] @ '' object is not iterable''))"

text \<open>
  \<^verbatim>\<open>k in x\<close> with a string \<open>k\<close>: a key of a dict, an element of a list, a substring of a
  string; any other value is not a container.
\<close>

fun py_contains :: "string \<Rightarrow> json \<Rightarrow> exn + bool" where
  "py_contains k (JObj kvs) = Inr (k \<in> set (map fst kvs))"
| "py_contains k (JArr xs) = Inr (JStr k \<in> set xs)"
| "py_contains k (JStr s) = Inr (str_in k s)"
| "py_contains k x =
     Inl (TypeError (''argument of type '' @ [CHR 0x27] @ type_name x @ [CHR 0x27]
                     @ '' is not iterable''))"

text \<open>\<^verbatim>\<open>x.lower()\<close>: only a string has the method.\<close>

fun py_lower :: "json \<Rightarrow> exn + string" where
  "py_lower (JStr s) = Inr (lower s)"
| "py_lower x = Inl (no_attribute x ''lower'')"

text \<open>
  Keys of a dict.  Lists and dicts are not hashable.  Two keys are the same key when they
  are equal in Python: \<^verbatim>\<open>True\<close> and \<^verbatim>\<open>1\<close> and \<^verbatim>\<open>1.0\<close> are one key, as numbers compare by
  value; \<^verbatim>\<open>json.loads\<close> returns one and the same object for every \<^verbatim>\<open>NaN\<close>.
\<close>

fun hashable :: "json \<Rightarrow> bool" where
  "hashable (JArr xs) = False"
| "hashable (JObj kvs) = False"
| "hashable x = True"

fun number_of :: "json \<Rightarrow> pyfloat option" where
  "number_of (JBool b) = Some (Finite (if b then 1 else 0))"
| "number_of (JInt n) = Some (Finite (of_int n))"
| "number_of (JFloat f) = Some f"
| "number_of x = None"

definition key_eq :: "json \<Rightarrow> json \<Rightarrow> bool" where
  "key_eq a b =
     (case (number_of a, number_of b) of
        (Some x, Some y) \<Rightarrow> x = y
      | (None, None) \<Rightarrow> a = b
      | _ \<Rightarrow> False)"

text \<open>
  \<^verbatim>\<open>d[k] = v\<close> on a dict kept in insertion order: an equal key keeps its place and its first
  spelling and takes the new value, a new key goes to the end.
\<close>

fun dict_set :: "(json \<times> json) list \<Rightarrow> json \<Rightarrow> json \<Rightarrow> (json \<times> json) list" where
  "dict_set [] k v = [(k, v)]"
| "dict_set ((k', v') # d) k v = (if key_eq k' k then (k', v) # d else (k', v') # dict_set d k v)"

subsection \<open>The language table\<close>

definition LANGUAGE_MAPPING :: "(string \<times> string) list" where
  "LANGUAGE_MAPPING =
     [(''en'', ''English''), (''tr'', ''Turkish''), (''es'', ''Spanish''), (''fr'', ''French''),
      (''de'', ''German''), (''hi'', ''Hindi''), (''zh'', ''Chinese''), (''it'', ''Italian'')]"

text \<open>
  \<^verbatim>\<open>LANGUAGE_MAPPING.get(language, "English")\<close>.  The handler passes whatever the body
  holds under \<^verbatim>\<open>language\<close>: a list or a dict cannot be hashed, any other value that is not
  one of the eight codes gets the default.
\<close>

fun target_language :: "json \<Rightarrow> exn + string" where
  "target_language (JStr code) =
     Inr (case map_of LANGUAGE_MAPPING code of None \<Rightarrow> ''English'' | Some name \<Rightarrow> name)"
| "target_language (JArr xs) = Inl (TypeError (''unhashable type: '' @ [CHR 0x27] @ ''list'' @ [CHR 0x27]))"
| "target_language (JObj kvs) = Inl (TypeError (''unhashable type: '' @ [CHR 0x27] @ ''dict'' @ [CHR 0x27]))"
| "target_language x = Inr ''English''"

subsection \<open>Floating-point arithmetic\<close>

text \<open>
  Python's \<^verbatim>\<open>float\<close> is IEEE 754 binary64: 53 significant bits, exponents from \<open>-1022\<close> to
  \<open>1023\<close>, every result rounded to the nearest representable number and to the even one
  of two equally near.  \<open>binade x\<close> is the exponent \<open>e\<close> with \<open>2 ^ e \<le> x < 2 ^ (e + 1)\<close> of a
  positive \<open>x\<close>.
\<close>

function bit_length :: "int \<Rightarrow> nat" where
  "bit_length n = (if n \<le> 0 then 0 else Suc (bit_length (n div 2)))"
  by pat_completeness auto
termination
  by (relation "measure nat") auto

definition pow2 :: "int \<Rightarrow> rat" where
  "pow2 e = (if 0 \<le> e then 2 ^ nat e else 1 / 2 ^ nat (- e))"

definition binade :: "rat \<Rightarrow> int" where
  "binade x =
     (if 1 \<le> x then int (bit_length \<lfloor>x\<rfloor>) - 1
      else - int (bit_length (\<lceil>1 / x\<rceil> - 1)))"

definition round_half_even :: "rat \<Rightarrow> int" where
  "round_half_even x =
     (let f = \<lfloor>x\<rfloor>; d = x - of_int f
      in if d < 1 / 2 then f else if 1 / 2 < d then f + 1 else if even f then f else f + 1)"

definition round_double :: "rat \<Rightarrow> pyfloat" where
  "round_double x =
     (if x = 0 then Finite 0
      else
        let a = \<bar>x\<bar>;
            e = max (binade a) (- 1022);
            u = pow2 (e - 52);
            m = round_half_even (a / u)
        in if 1024 \<le> e \<or> (e = 1023 \<and> m = 2 ^ 53)
           then (if 0 < x then PosInf else NegInf)
           else Finite (sgn x * of_int m * u))"

fun float_sign :: "pyfloat \<Rightarrow> int" where
  "float_sign (Finite x) = (if x = 0 then 0 else if 0 < x then 1 else - 1)"
| "float_sign PosInf = 1"
| "float_sign NegInf = - 1"
| "float_sign NaN = 0"

fun fmul :: "pyfloat \<Rightarrow> pyfloat \<Rightarrow> pyfloat" where
  "fmul (Finite x) (Finite y) = round_double (x * y)"
| "fmul NaN b = NaN"
| "fmul a NaN = NaN"
| "fmul a b =
     (let s = float_sign a * float_sign b
      in if s = 0 then NaN else if 0 < s then PosInf else NegInf)"

fun fadd :: "pyfloat \<Rightarrow> pyfloat \<Rightarrow> pyfloat" where
  "fadd (Finite x) (Finite y) = round_double (x + y)"
| "fadd NaN b = NaN"
| "fadd a NaN = NaN"
| "fadd PosInf NegInf = NaN"
| "fadd NegInf PosInf = NaN"
| "fadd (Finite x) b = b"
| "fadd a b = a"

fun flt :: "pyfloat \<Rightarrow> pyfloat \<Rightarrow> bool" where
  "flt (Finite x) (Finite y) = (x < y)"
| "flt NaN b = False"
| "flt a NaN = False"
| "flt a NegInf = False"
| "flt PosInf b = False"
| "flt a b = True"

text \<open>\<^verbatim>\<open>min(a, b)\<close> keeps \<open>a\<close> unless \<open>b < a\<close>.\<close>

definition py_min :: "pyfloat \<Rightarrow> pyfloat \<Rightarrow> pyfloat" where
  "py_min a b = (if flt b a then b else a)"

text \<open>
  An \<^verbatim>\<open>int\<close> operand of a float operation is converted first, correctly rounded; one too
  large for a float raises.
\<close>

definition float_of_int :: "int \<Rightarrow> exn + pyfloat" where
  "float_of_int n =
     (case round_double (of_int n) of
        Finite x \<Rightarrow> Inr (Finite x)
      | _ \<Rightarrow> Inl (OverflowError ''int too large to convert to float''))"

text \<open>\<^verbatim>\<open>v * f\<close> for a JSON value \<open>v\<close> and a float \<open>f\<close>.\<close>

fun times_float :: "json \<Rightarrow> pyfloat \<Rightarrow> exn + pyfloat" where
  "times_float (JInt n) f =
     (case float_of_int n of Inl e \<Rightarrow> Inl e | Inr x \<Rightarrow> Inr (fmul x f))"
| "times_float (JBool b) f = Inr (fmul (Finite (if b then 1 else 0)) f)"
| "times_float (JFloat x) f = Inr (fmul x f)"
| "times_float (JStr s) f =
     Inl (TypeError (''can'' @ [CHR 0x27] @ ''t multiply sequence by non-int of type ''
                     @ [CHR 0x27] @ ''float'' @ [CHR 0x27]))"
| "times_float (JArr xs) f =
     Inl (TypeError (''can'' @ [CHR 0x27] @ ''t multiply sequence by non-int of type ''
                     @ [CHR 0x27] @ ''float'' @ [CHR 0x27]))"
| "times_float v f =
     Inl (TypeError (''unsupported operand type(s) for *: '' @ [CHR 0x27] @ type_name v
                     @ [CHR 0x27] @ '' and '' @ [CHR 0x27] @ ''float'' @ [CHR 0x27]))"

text \<open>
  Lines 189 and 190 of the source:
  \<^verbatim>\<open>base_temperature = 0.8 + (variation_seed * 0.05)\<close>,
  \<^verbatim>\<open>capped_temperature = min(base_temperature, 2.0)\<close>.
  A literal denotes the float nearest to its decimal value.
\<close>

definition capped_temperature :: "json \<Rightarrow> exn + pyfloat" where
  "capped_temperature variation_seed =
     (case times_float variation_seed (round_double (5 / 100)) of
        Inl e \<Rightarrow> Inl e
      | Inr p \<Rightarrow>
          (let base_temperature = fadd (round_double (8 / 10)) p
           in Inr (py_min base_temperature (round_double 2))))"

section \<open>The outside world\<close>

text \<open>
  The program talks to two services.  Each outbound call is recorded by the values the
  source interpolates into its URL or prompt (the text of the URL and of the prompt is a
  fixed template around them), and the log of calls made so far is threaded through every
  function.  The services answer as they please: an answer may depend on the request and
  on how many calls were made before it, and may be an exception.
\<close>

record persona_request =
  p_movies :: json
  p_music :: json
  p_brands :: json
  p_gender :: json
  p_qloo_suggestions :: "json list"
  p_target_language :: string
  p_variation_seed :: json
  p_temperature :: pyfloat

datatype request =
    Autocomplete string
  | Trending json string
  | CulturalChat "string list" string
  | PersonaChat persona_request

text \<open>
  \<open>Autocomplete safe_query\<close> is the \<^verbatim>\<open>GET\<close> of
  \<^verbatim>\<open>{QLOO_API_URL}/v1/autocomplete?query={safe_query}\<close>; \<open>Trending entity_id entity_type\<close>
  the \<^verbatim>\<open>GET\<close> of \<^verbatim>\<open>{QLOO_API_URL}/v2/trending\<close> for that entity and type, from 1 January
  of the current year to today; \<open>CulturalChat countries target_language\<close> the completion
  call of \<^verbatim>\<open>generate_cultural_map_insights\<close> (temperature \<open>0.7\<close>, at most 800 tokens) and
  \<open>PersonaChat\<close> the one of \<^verbatim>\<open>generate_persona_from_taste\<close> (at most 800 tokens).

  A reply of the taste-graph service has a status code and a body, which
  \<^verbatim>\<open>response.json()\<close> parses or rejects; a completion has a list of choices, each with a
  content that may be missing.
\<close>

record http_response =
  status_code :: int
  json_body :: "exn + json"

record world =
  requests_get :: "nat \<Rightarrow> request \<Rightarrow> exn + http_response"
  chat_create :: "nat \<Rightarrow> request \<Rightarrow> exn + string option list"
  json_loads :: "string \<Rightarrow> exn + json"
  json_dumps :: "json \<Rightarrow> string"

type_synonym 'a io = "request list \<Rightarrow> (exn + 'a) \<times> request list"

definition http_get :: "world \<Rightarrow> request \<Rightarrow> http_response io" where
  "http_get w r calls = (requests_get w (length calls) r, calls @ [r])"

definition chat :: "world \<Rightarrow> request \<Rightarrow> (string option list) io" where
  "chat w r calls = (chat_create w (length calls) r, calls @ [r])"

text \<open>Sequencing: an exception ends the computation, the log stays as it was then.\<close>

definition and_then :: "exn + 'a \<Rightarrow> ('a \<Rightarrow> exn + 'b) \<Rightarrow> exn + 'b" where
  "and_then r f = (case r of Inl e \<Rightarrow> Inl e | Inr v \<Rightarrow> f v)"

definition io_pure :: "exn + 'a \<Rightarrow> 'a io" where
  "io_pure r calls = (r, calls)"

definition io_bind :: "'a io \<Rightarrow> ('a \<Rightarrow> 'b io) \<Rightarrow> 'b io" where
  "io_bind m f calls =
     (case m calls of (Inl e, calls') \<Rightarrow> (Inl e, calls') | (Inr v, calls') \<Rightarrow> f v calls')"

section \<open>The program\<close>

subsection \<open>\<^verbatim>\<open>generate_cultural_map_insights\<close>\<close>

text \<open>
  The comprehension \<^verbatim>\<open>{item["country"]: item for item in parsed if "country" in item}\<close>,
  with the dict built so far as accumulator.
\<close>

fun country_dict :: "json list \<Rightarrow> (json \<times> json) list \<Rightarrow> exn + (json \<times> json) list" where
  "country_dict [] d = Inr d"
| "country_dict (item # items) d =
     (case py_contains ''country'' item of
        Inl e \<Rightarrow> Inl e
      | Inr False \<Rightarrow> country_dict items d
      | Inr True \<Rightarrow>
          (case py_subscript item ''country'' of
             Inl e \<Rightarrow> Inl e
           | Inr k \<Rightarrow>
               if hashable k then country_dict items (dict_set d k item)
               else Inl (TypeError (''unhashable type: '' @ [CHR 0x27] @ type_name k @ [CHR 0x27]))))"

text \<open>The body of the \<^verbatim>\<open>try\<close>; the \<^verbatim>\<open>except\<close> turns any exception into the empty dict.\<close>

definition parse_cultural_map :: "world \<Rightarrow> string \<Rightarrow> (json \<times> json) list" where
  "parse_cultural_map w content =
     (case and_then (json_loads w content)
             (\<lambda>parsed. and_then (py_iter parsed) (\<lambda>items. country_dict items [])) of
        Inl e \<Rightarrow> []
      | Inr d \<Rightarrow> d)"

definition generate_cultural_map_insights ::
  "world \<Rightarrow> string list \<Rightarrow> json \<Rightarrow> ((json \<times> json) list) io" where
  "generate_cultural_map_insights w countries language =
     (if countries = [] then io_pure (Inr [])
      else
        io_bind (io_pure (target_language language)) (\<lambda>target.
        io_bind (chat w (CulturalChat countries target)) (\<lambda>choices.
        io_pure
          (case choices of
             [] \<Rightarrow> Inl (IndexError ''list index out of range'')
           | content # rest \<Rightarrow>
               (case content of
                  None \<Rightarrow> Inr []
                | Some c \<Rightarrow> if c = [] then Inr [] else Inr (parse_cultural_map w c))))))"

subsection \<open>\<^verbatim>\<open>autocomplete_entity\<close>\<close>

text \<open>
  \<^verbatim>\<open>urllib.parse.quote\<close> keeps letters, digits and \<^verbatim>\<open>_.-~/\<close> and writes every other byte
  as \<^verbatim>\<open>%XX\<close>; it accepts strings only.
\<close>

definition hex_digit :: "nat \<Rightarrow> char" where
  "hex_digit n = (if n < 10 then char_of (48 + n) else char_of (55 + n))"

definition quote_char :: "char \<Rightarrow> string" where
  "quote_char c =
     (let n = of_char c :: nat
      in if (48 \<le> n \<and> n \<le> 57) \<or> (65 \<le> n \<and> n \<le> 90) \<or> (97 \<le> n \<and> n \<le> 122)
            \<or> c \<in> set ''_.-~/''
         then [c] else [CHR ''%'', hex_digit (n div 16), hex_digit (n mod 16)])"

fun quote :: "json \<Rightarrow> exn + string" where
  "quote (JStr s) = Inr (concat (map quote_char s))"
| "quote x = Inl (TypeError ''quote_from_bytes() expected bytes'')"

text \<open>
  The loop over the candidates: the first one whose lowered \<^verbatim>\<open>type\<close> contains
  \<open>entity_type\<close> decides; when the loop ends the function returns \<^verbatim>\<open>None\<close>.
\<close>

fun first_match :: "string \<Rightarrow> json list \<Rightarrow> exn + json" where
  "first_match entity_type [] = Inr JNull"
| "first_match entity_type (r # rs) =
     (case py_get r ''type'' (JStr []) of
        Inl e \<Rightarrow> Inl e
      | Inr t \<Rightarrow>
          (case py_lower t of
             Inl e \<Rightarrow> Inl e
           | Inr lowered \<Rightarrow>
               if str_in entity_type lowered then py_get r ''id'' (JStr [])
               else first_match entity_type rs))"

definition autocomplete_entity :: "world \<Rightarrow> json \<Rightarrow> string \<Rightarrow> json io" where
  "autocomplete_entity w query entity_type =
     io_bind (io_pure (quote query)) (\<lambda>safe_query.
     io_bind (http_get w (Autocomplete safe_query)) (\<lambda>response.
     io_pure
       (if status_code response = 200 then
          and_then (json_body response) (\<lambda>body.
          and_then (py_get body ''results'' (JArr [])) (\<lambda>results.
          and_then (py_iter results) (first_match entity_type)))
        else Inr JNull)))"

subsection \<open>\<^verbatim>\<open>get_qloo_trending\<close>\<close>

text \<open>The comprehension \<^verbatim>\<open>[i.get("name", "Unknown") for i in items if "name" in i]\<close>.\<close>

fun names_of :: "json list \<Rightarrow> exn + json list" where
  "names_of [] = Inr []"
| "names_of (i # items) =
     (case py_contains ''name'' i of
        Inl e \<Rightarrow> Inl e
      | Inr False \<Rightarrow> names_of items
      | Inr True \<Rightarrow>
          (case py_get i ''name'' (JStr ''Unknown'') of
             Inl e \<Rightarrow> Inl e
           | Inr v \<Rightarrow> (case names_of items of Inl e \<Rightarrow> Inl e | Inr vs \<Rightarrow> Inr (v # vs))))"

definition get_qloo_trending :: "world \<Rightarrow> json \<Rightarrow> string \<Rightarrow> (json list) io" where
  "get_qloo_trending w entity_id entity_type =
     (if \<not> truthy entity_id then io_pure (Inr [])
      else
        io_bind (http_get w (Trending entity_id entity_type)) (\<lambda>response.
        io_pure
          (if status_code response = 200 then
             and_then (json_body response) (\<lambda>data.
             and_then (py_get data ''results'' (JArr [])) (\<lambda>items.
             and_then (py_iter items) names_of))
           else Inr [])))"

subsection \<open>\<^verbatim>\<open>generate_persona_from_taste\<close>\<close>

definition generate_persona_from_taste ::
  "world \<Rightarrow> json \<Rightarrow> json \<Rightarrow> json \<Rightarrow> json \<Rightarrow> json list \<Rightarrow> json \<Rightarrow> json \<Rightarrow> string io" where
  "generate_persona_from_taste w movies music brands gender qloo_suggestions language
       variation_seed =
     io_bind (io_pure (target_language language)) (\<lambda>target.
     io_bind (io_pure (capped_temperature variation_seed)) (\<lambda>temperature.
     io_bind
       (chat w
          (PersonaChat
             \<lparr>p_movies = movies, p_music = music, p_brands = brands, p_gender = gender,
              p_qloo_suggestions = qloo_suggestions, p_target_language = target,
              p_variation_seed = variation_seed, p_temperature = temperature\<rparr>))
       (\<lambda>choices.
     io_pure
       (case choices of
          [] \<Rightarrow> Inl (IndexError ''list index out of range'')
        | content # rest \<Rightarrow>
            (case content of
               None \<Rightarrow> Inl (HTTPException 500 ''GPT returned empty response'')
             | Some c \<Rightarrow>
                 if c = [] then Inl (HTTPException 500 ''GPT returned empty response'')
                 else Inr (strip c))))))"

subsection \<open>\<^verbatim>\<open>analyze_profile\<close>\<close>

record response =
  result :: string
  culturalTwin :: json
  countryInsights :: "(json \<times> json) list"

text \<open>
  The body of the \<^verbatim>\<open>try\<close>, after \<^verbatim>\<open>body = await request.json()\<close>, in two parts.
  Lines 213 to 224 read the two optional fields and ask the taste-graph service: three
  resolutions, then three trend lists.
\<close>

definition qloo_signals ::
  "world \<Rightarrow> json \<Rightarrow> (json \<times> json \<times> json list \<times> json list \<times> json list) io" where
  "qloo_signals w body =
     io_bind (io_pure (py_get body ''variation'' (JInt 0))) (\<lambda>variation.
     io_bind (io_pure (py_get body ''language'' (JStr ''en''))) (\<lambda>language.
     io_bind (io_pure (py_subscript body ''music'')) (\<lambda>music_query.
     io_bind (autocomplete_entity w music_query ''artist'') (\<lambda>music_id.
     io_bind (io_pure (py_subscript body ''movies'')) (\<lambda>movies_query.
     io_bind (autocomplete_entity w movies_query ''movie'') (\<lambda>movie_id.
     io_bind (io_pure (py_subscript body ''brands'')) (\<lambda>brands_query.
     io_bind (autocomplete_entity w brands_query ''brand'') (\<lambda>brand_id.
     io_bind (get_qloo_trending w music_id ''artist'') (\<lambda>music_trends.
     io_bind (get_qloo_trending w movie_id ''movie'') (\<lambda>movie_trends.
     io_bind (get_qloo_trending w brand_id ''brand'') (\<lambda>brand_trends.
     io_pure (Inr (variation, language, music_trends, movie_trends, brand_trends)))))))))))))"

text \<open>
  Lines 226 to 248 combine the trend lists, ask the model for the persona and for the
  country insights, and build the payload.
\<close>

definition analyze_body :: "world \<Rightarrow> json \<Rightarrow> response io" where
  "analyze_body w body =
     io_bind (qloo_signals w body)
       (\<lambda>(variation, language, music_trends, movie_trends, brand_trends).
     io_bind (io_pure (py_subscript body ''movies'')) (\<lambda>movies.
     io_bind (io_pure (py_subscript body ''music'')) (\<lambda>music.
     io_bind (io_pure (py_subscript body ''brands'')) (\<lambda>brands.
     io_bind (io_pure (py_subscript body ''gender'')) (\<lambda>gender.
     io_bind
       (generate_persona_from_taste w movies music brands gender
          (music_trends @ movie_trends @ brand_trends) language variation)
       (\<lambda>ai_result.
     io_bind (io_pure (json_loads w ai_result)) (\<lambda>parsed.
     io_bind
       (generate_cultural_map_insights w [''USA'', ''South Korea'', ''UK'', ''Japan''] language)
       (\<lambda>country_insights.
     io_bind (io_pure (py_get parsed ''culturalTwin'' (JStr ''Unknown''))) (\<lambda>twin.
     io_pure
       (Inr \<lparr>result = json_dumps w parsed, culturalTwin = twin,
             countryInsights = country_insights\<rparr>))))))))))"

text \<open>
  The handler.  \<open>req\<close> is what \<^verbatim>\<open>await request.json()\<close> gives: the parsed body or the
  exception of a body that is not JSON.  Whatever the \<^verbatim>\<open>try\<close> raises is answered with
  status 500 and the detail \<^verbatim>\<open>Analysis failed: \<close> followed by \<^verbatim>\<open>str(e)\<close>; a returned
  value is the payload the handler hands to the framework.  The second component is the
  list of the outbound calls the request made.
\<close>

definition analyze_profile :: "world \<Rightarrow> exn + json \<Rightarrow> (exn + response) \<times> request list" where
  "analyze_profile w req =
     (case io_bind (io_pure req) (analyze_body w) [] of
        (Inl e, calls) \<Rightarrow> (Inl (HTTPException 500 (''Analysis failed: '' @ str_exn e)), calls)
      | (Inr r, calls) \<Rightarrow> (Inr r, calls))"

text \<open>
  What the client sees.  The handler's \<^verbatim>\<open>HTTPException\<close> is answered with its status and
  detail.  A returned payload is not yet an answer: the framework encodes it as JSON after
  the handler has returned, outside the \<^verbatim>\<open>try\<close>, and its encoder refuses some values (a
  \<^verbatim>\<open>nan\<close> or an infinity, for one: it encodes with \<^verbatim>\<open>allow_nan=False\<close>).  \<open>renders\<close> tells
  which payloads the framework encodes.  For them the answer has status 200 and the
  payload as its body; for the others the encoder's exception escapes, no handler of the
  program catches it, and the client gets the server's bare status 500.
\<close>

datatype answer = Rendered response | Failed nat string | Unhandled

definition post_analyze ::
  "(response \<Rightarrow> bool) \<Rightarrow> world \<Rightarrow> exn + json \<Rightarrow> answer \<times> request list" where
  "post_analyze renders w req =
     (case analyze_profile w req of
        (Inr payload, calls) \<Rightarrow>
          ((if renders payload then Rendered payload else Unhandled), calls)
      | (Inl e, calls) \<Rightarrow>
          ((case e of HTTPException status detail \<Rightarrow> Failed status detail | _ \<Rightarrow> Unhandled),
           calls))"

section \<open>Example runs\<close>

text \<open>
  A taste-graph service that answers every call with status 404, and one that knows one
  artist and one trending name; a model that returns fixed texts for the persona and for
  the country insights; a parser that knows these texts.
\<close>

definition not_found :: "nat \<Rightarrow> request \<Rightarrow> exn + http_response" where
  "not_found n r = Inr \<lparr>status_code = 404, json_body = Inl (JSONDecodeError ''Expecting value'')\<rparr>"

definition candidates :: json where
  "candidates =
     JObj [(''results'',
            JArr [JObj [(''id'', JStr ''B1''), (''type'', JStr ''urn:entity:Brand'')],
                  JObj [(''type'', JStr ''urn:entity:Movie'')],
                  JObj [(''id'', JStr ''A1''), (''type'', JStr ''urn:entity:Artist'')],
                  JObj [(''id'', JStr ''A2''), (''type'', JStr ''urn:entity:artist'')]])]"

definition trends :: json where
  "trends =
     JObj [(''results'',
            JArr [JObj [(''name'', JStr ''Discovery'')],
                  JObj [(''entity_id'', JStr ''X'')],
                  JObj [(''name'', JStr ''Homework'')]])]"

definition qloo :: "nat \<Rightarrow> request \<Rightarrow> exn + http_response" where
  "qloo n r =
     (case r of
        Autocomplete q \<Rightarrow> Inr \<lparr>status_code = 200, json_body = Inr candidates\<rparr>
      | Trending i t \<Rightarrow> Inr \<lparr>status_code = 200, json_body = Inr trends\<rparr>
      | _ \<Rightarrow> Inl (ProviderError ''not a taste-graph request''))"

definition gpt :: "string option \<Rightarrow> string option \<Rightarrow> nat \<Rightarrow> request \<Rightarrow> exn + string option list" where
  "gpt persona insights n r =
     (case r of
        PersonaChat p \<Rightarrow> Inr [persona]
      | CulturalChat cs t \<Rightarrow> Inr [insights]
      | _ \<Rightarrow> Inl (ProviderError ''not a completion request''))"

definition loads :: "string \<Rightarrow> exn + json" where
  "loads s =
     (if s = ''PERSONA'' then Inr (JObj [(''personaName'', JStr ''Night Owl'')])
      else if s = ''FRANCE'' then
        Inr (JArr [JObj [(''country'', JStr ''France''), (''culturalInsight'', JStr ''Cinema''),
                         (''recommendation'', JStr ''Amelie'')]])
      else if s = ''NAN TWIN'' then Inr (JObj [(''culturalTwin'', JFloat NaN)])
      else Inl (JSONDecodeError ''Expecting value''))"

definition example_world ::
  "(nat \<Rightarrow> request \<Rightarrow> exn + http_response) \<Rightarrow> string option \<Rightarrow> string option \<Rightarrow> world" where
  "example_world service persona insights =
     \<lparr>requests_get = service, chat_create = gpt persona insights, json_loads = loads,
      json_dumps = (\<lambda>j. ''{}'')\<rparr>"

definition example_body :: "(string \<times> json) list" where
  "example_body =
     [(''movies'', JStr ''Inception''), (''music'', JStr ''Daft Punk''),
      (''brands'', JStr ''Nike''), (''gender'', JStr ''male'')]"

text \<open>
  An encoder that, like the framework's, refuses \<^verbatim>\<open>nan\<close> and the infinities wherever they
  occur in the payload, and encodes what has none.
\<close>

primrec json_compliant :: "json \<Rightarrow> bool" where
  "json_compliant JNull = True"
| "json_compliant (JBool b) = True"
| "json_compliant (JInt n) = True"
| "json_compliant (JFloat x) = (case x of Finite q \<Rightarrow> True | _ \<Rightarrow> False)"
| "json_compliant (JStr s) = True"
| "json_compliant (JArr xs) = list_all (\<lambda>b. b) (map json_compliant xs)"
| "json_compliant (JObj kvs) = list_all snd (map (map_prod id json_compliant) kvs)"

definition compliant :: "response \<Rightarrow> bool" where
  "compliant payload =
     (json_compliant (culturalTwin payload)
      \<and> list_all (\<lambda>(k, v). json_compliant k \<and> json_compliant v) (countryInsights payload))"

section \<open>Notions the properties are stated with\<close>

text \<open>
  A candidate of an autocomplete reply is an object; its reported type is the string under
  \<^verbatim>\<open>type\<close> (empty when it reports none) and its identifier the value under \<^verbatim>\<open>id\<close>.  A
  candidate matches a category when its type contains the category, letter case ignored.
\<close>

fun well_formed_candidate :: "json \<Rightarrow> bool" where
  "well_formed_candidate (JObj kvs) =
     (case map_of kvs ''type'' of None \<Rightarrow> True | Some (JStr t) \<Rightarrow> True | Some x \<Rightarrow> False)"
| "well_formed_candidate x = False"

fun candidate_type :: "json \<Rightarrow> string" where
  "candidate_type (JObj kvs) = (case map_of kvs ''type'' of Some (JStr t) \<Rightarrow> t | _ \<Rightarrow> [])"
| "candidate_type x = []"

fun candidate_id :: "json \<Rightarrow> json option" where
  "candidate_id (JObj kvs) = map_of kvs ''id''"
| "candidate_id x = None"

definition type_matches :: "string \<Rightarrow> json \<Rightarrow> bool" where
  "type_matches category r = sublist (lower category) (lower (candidate_type r))"

text \<open>The \<^verbatim>\<open>name\<close> of an item of a trending reply, when the item is an object that has one.\<close>

fun is_object :: "json \<Rightarrow> bool" where
  "is_object (JObj kvs) = True"
| "is_object x = False"

fun name_field :: "json \<Rightarrow> json option" where
  "name_field (JObj kvs) = map_of kvs ''name''"
| "name_field x = None"

section \<open>Properties\<close>

subsection \<open>Auxiliary facts\<close>

lemma and_then_simps:
  "and_then (Inl e) f = Inl e" "and_then (Inr v) f = f v"
  by (simp_all add: and_then_def)

lemma io_bind_pure:
  "io_bind (io_pure (Inl e)) f c = (Inl e, c)" "io_bind (io_pure (Inr v)) f c = f v c"
  by (simp_all add: io_bind_def io_pure_def)

lemma io_bind_result:
  "m c = (Inl e, c') \<Longrightarrow> io_bind m f c = (Inl e, c')"
  "m c = (Inr v, c') \<Longrightarrow> io_bind m f c = f v c'"
  by (simp_all add: io_bind_def)

lemma str_in_sublist: "str_in n h = sublist n h"
  by (induction h) (auto simp: sublist_Cons_right)

lemma lower_categories:
  "lower ''artist'' = ''artist''" "lower ''movie'' = ''movie''" "lower ''brand'' = ''brand''"
  by (simp_all add: lower_def lower_char_def)

lemma first_match_find:
  "\<forall>r \<in> set rs. well_formed_candidate r \<Longrightarrow>
   first_match et rs =
     (case find (\<lambda>r. str_in et (lower (candidate_type r))) rs of
        None \<Rightarrow> Inr JNull
      | Some r \<Rightarrow> py_get r ''id'' (JStr []))"
proof (induction rs)
  case Nil
  then show ?case by simp
next
  case (Cons r rs)
  then obtain kvs where r: "r = JObj kvs" by (cases r) auto
  from Cons.prems have wf: "well_formed_candidate (JObj kvs)" by (simp add: r)
  show ?case
  proof (cases "map_of kvs ''type''")
    case None
    with Cons show ?thesis by (simp add: r dict_get_def)
  next
    case (Some t)
    with wf obtain s where "t = JStr s" by (cases t) auto
    with Some Cons show ?thesis by (simp add: r dict_get_def)
  qed
qed

lemma find_well_formed:
  "\<forall>r \<in> set rs. well_formed_candidate r \<Longrightarrow> find P rs = Some r \<Longrightarrow> \<exists>kvs. r = JObj kvs"
  by (metis find_Some_iff nth_mem well_formed_candidate.elims(2))

lemma autocomplete_entity_reply:
  assumes "quote query = Inr safe_query"
    and "requests_get w (length calls) (Autocomplete safe_query) = Inr response"
  shows "autocomplete_entity w query entity_type calls =
           (if status_code response = 200 then
              and_then (json_body response) (\<lambda>body.
              and_then (py_get body ''results'' (JArr [])) (\<lambda>results.
              and_then (py_iter results) (first_match entity_type)))
            else Inr JNull, calls @ [Autocomplete safe_query])"
  using assms by (simp add: autocomplete_entity_def io_bind_def io_pure_def http_get_def)

lemma autocomplete_entity_candidates:
  assumes "quote query = Inr safe_query"
    and "requests_get w (length calls) (Autocomplete safe_query) = Inr response"
    and "status_code response = 200"
    and "json_body response = Inr (JObj reply)"
    and "map_of reply ''results'' = Some (JArr rs)"
    and "\<forall>r \<in> set rs. well_formed_candidate r"
    and "lower entity_type = entity_type"
  shows "fst (autocomplete_entity w query entity_type calls) =
           (case find (type_matches entity_type) rs of
              None \<Rightarrow> Inr JNull
            | Some r \<Rightarrow> py_get r ''id'' (JStr []))"
proof -
  have "type_matches entity_type = (\<lambda>r. str_in entity_type (lower (candidate_type r)))"
    using assms(7) by (simp add: type_matches_def str_in_sublist fun_eq_iff)
  then show ?thesis
    using assms(1-6)
    by (simp add: autocomplete_entity_reply and_then_simps dict_get_def first_match_find)
qed

lemma names_of_objects:
  "\<forall>i \<in> set items. is_object i \<Longrightarrow> names_of items = Inr (List.map_filter name_field items)"
proof (induction items)
  case Nil
  then show ?case by (simp add: List.map_filter_simps)
next
  case (Cons i items)
  then obtain kvs where i: "i = JObj kvs" by (cases i) auto
  show ?case
  proof (cases "map_of kvs ''name''")
    case None
    then have "''name'' \<notin> fst ` set kvs" by (simp add: map_of_eq_None_iff)
    with None Cons show ?thesis by (simp add: i List.map_filter_simps)
  next
    case (Some v)
    then have "''name'' \<in> fst ` set kvs" by (metis map_of_eq_None_iff option.distinct(1))
    with Some Cons show ?thesis by (simp add: i List.map_filter_simps dict_get_def)
  qed
qed

lemma get_qloo_trending_falsy:
  "\<not> truthy entity_id \<Longrightarrow> get_qloo_trending w entity_id entity_type calls = (Inr [], calls)"
  by (simp add: get_qloo_trending_def io_pure_def)

lemma get_qloo_trending_reply:
  assumes "truthy entity_id"
    and "requests_get w (length calls) (Trending entity_id entity_type) = Inr response"
  shows "get_qloo_trending w entity_id entity_type calls =
           (if status_code response = 200 then
              and_then (json_body response) (\<lambda>data.
              and_then (py_get data ''results'' (JArr [])) (\<lambda>items.
              and_then (py_iter items) names_of))
            else Inr [], calls @ [Trending entity_id entity_type])"
  using assms by (simp add: get_qloo_trending_def io_bind_def io_pure_def http_get_def)

subsection \<open>The Entity Resolver\<close>

text \<open>
  Claim C5.  Let the query be a string, the category one of \<^verbatim>\<open>artist\<close>, \<^verbatim>\<open>movie\<close> and
  \<^verbatim>\<open>brand\<close>, and let the taste-graph service answer the autocomplete call.  If the status
  is 200 and the reply holds a list of candidates, the resolver returns the identifier of
  the first candidate whose type contains the category, letter case ignored, and
  \<^verbatim>\<open>None\<close> when no candidate matches; if the status is not 200 it returns \<^verbatim>\<open>None\<close>.
\<close>

theorem entity_resolver:
  assumes "entity_type \<in> {''artist'', ''movie'', ''brand''}"
    and "quote query = Inr safe_query"
    and "requests_get w (length calls) (Autocomplete safe_query) = Inr response"
  shows "(status_code response = 200 \<and> json_body response = Inr (JObj reply)
            \<and> map_of reply ''results'' = Some (JArr rs)
            \<and> (\<forall>r \<in> set rs. well_formed_candidate r) \<longrightarrow>
          (case find (type_matches entity_type) rs of
             None \<Rightarrow> fst (autocomplete_entity w query entity_type calls) = Inr JNull
           | Some r \<Rightarrow>
               \<forall>i. candidate_id r = Some i \<longrightarrow>
                 fst (autocomplete_entity w query entity_type calls) = Inr i))
         \<and> (status_code response \<noteq> 200 \<longrightarrow>
              fst (autocomplete_entity w query entity_type calls) = Inr JNull)"
proof (intro conjI impI)
  assume ok: "status_code response = 200 \<and> json_body response = Inr (JObj reply)
            \<and> map_of reply ''results'' = Some (JArr rs)
            \<and> (\<forall>r \<in> set rs. well_formed_candidate r)"
  from assms(1) have low: "lower entity_type = entity_type"
    using lower_categories by auto
  have res: "fst (autocomplete_entity w query entity_type calls) =
           (case find (type_matches entity_type) rs of
              None \<Rightarrow> Inr JNull
            | Some r \<Rightarrow> py_get r ''id'' (JStr []))"
    using autocomplete_entity_candidates [OF assms(2) assms(3) _ _ _ _ low] ok by blast
  show "case find (type_matches entity_type) rs of
          None \<Rightarrow> fst (autocomplete_entity w query entity_type calls) = Inr JNull
        | Some r \<Rightarrow>
            \<forall>i. candidate_id r = Some i \<longrightarrow>
              fst (autocomplete_entity w query entity_type calls) = Inr i"
  proof (cases "find (type_matches entity_type) rs")
    case None
    with res show ?thesis by simp
  next
    case (Some r)
    with ok obtain kvs where "r = JObj kvs" using find_well_formed by blast
    with Some res show ?thesis by (simp add: dict_get_def)
  qed
next
  assume "status_code response \<noteq> 200"
  then show "fst (autocomplete_entity w query entity_type calls) = Inr JNull"
    by (simp add: autocomplete_entity_reply [OF assms(2) assms(3)])
qed

lemma quote_example: "quote (JStr ''Daft Punk'') = Inr ''Daft%20Punk''"
  by code_simp

lemma find_artist_example:
  "find (type_matches ''artist'')
     [JObj [(''id'', JStr ''B1''), (''type'', JStr ''urn:entity:Brand'')],
      JObj [(''type'', JStr ''urn:entity:Movie'')],
      JObj [(''id'', JStr ''A1''), (''type'', JStr ''urn:entity:Artist'')],
      JObj [(''id'', JStr ''A2''), (''type'', JStr ''urn:entity:artist'')]]
   = Some (JObj [(''id'', JStr ''A1''), (''type'', JStr ''urn:entity:Artist'')])"
  by code_simp

lemma find_movie_example:
  "find (type_matches ''movie'')
     [JObj [(''id'', JStr ''B1''), (''type'', JStr ''urn:entity:Brand'')],
      JObj [(''type'', JStr ''urn:entity:Movie'')],
      JObj [(''id'', JStr ''A1''), (''type'', JStr ''urn:entity:Artist'')],
      JObj [(''id'', JStr ''A2''), (''type'', JStr ''urn:entity:artist'')]]
   = Some (JObj [(''type'', JStr ''urn:entity:Movie'')])"
  by code_simp

theorem entity_resolver_witness:
  "fst (autocomplete_entity (example_world qloo None None) (JStr ''Daft Punk'') ''artist'' [])
     = Inr (JStr ''A1'')
   \<and> fst (autocomplete_entity (example_world not_found None None) (JStr ''Daft Punk'')
            ''artist'' [])
     = Inr JNull"
proof
  have "requests_get (example_world qloo None None) (length []) (Autocomplete ''Daft%20Punk'')
          = Inr \<lparr>status_code = 200, json_body = Inr candidates\<rparr>"
    by (simp add: example_world_def qloo_def)
  from entity_resolver [OF _ quote_example this, of "''artist''"
      "[(''results'',
            JArr [JObj [(''id'', JStr ''B1''), (''type'', JStr ''urn:entity:Brand'')],
                  JObj [(''type'', JStr ''urn:entity:Movie'')],
                  JObj [(''id'', JStr ''A1''), (''type'', JStr ''urn:entity:Artist'')],
                  JObj [(''id'', JStr ''A2''), (''type'', JStr ''urn:entity:artist'')]])]"
      "[JObj [(''id'', JStr ''B1''), (''type'', JStr ''urn:entity:Brand'')],
                  JObj [(''type'', JStr ''urn:entity:Movie'')],
                  JObj [(''id'', JStr ''A1''), (''type'', JStr ''urn:entity:Artist'')],
                  JObj [(''id'', JStr ''A2''), (''type'', JStr ''urn:entity:artist'')]]"]
  show "fst (autocomplete_entity (example_world qloo None None) (JStr ''Daft Punk'') ''artist'' [])
     = Inr (JStr ''A1'')"
    by (simp add: candidates_def find_artist_example del: find.simps)
next
  have "requests_get (example_world not_found None None) (length [])
          (Autocomplete ''Daft%20Punk'')
          = Inr \<lparr>status_code = 404, json_body = Inl (JSONDecodeError ''Expecting value'')\<rparr>"
    by (simp add: example_world_def not_found_def)
  from entity_resolver [OF _ quote_example this, of "''artist''"]
  show "fst (autocomplete_entity (example_world not_found None None) (JStr ''Daft Punk'')
            ''artist'' [])
     = Inr JNull"
    by simp
qed

subsection \<open>The Trend Fetcher\<close>

text \<open>
  Claim C6.  Without an identifier the fetcher returns the empty list and makes no call:
  the log of calls is unchanged.  With one, it makes the trending call; on a reply with
  status 200 and a list of result objects it returns the \<^verbatim>\<open>name\<close> of every item that has
  one, in the order of the reply; on a reply with any other status it returns the empty
  list.
\<close>

theorem trend_fetcher:
  "get_qloo_trending w JNull entity_type calls = (Inr [], calls)
   \<and> (truthy entity_id
        \<and> requests_get w (length calls) (Trending entity_id entity_type) = Inr response \<longrightarrow>
      (status_code response = 200 \<and> json_body response = Inr (JObj reply)
         \<and> map_of reply ''results'' = Some (JArr items) \<and> (\<forall>i \<in> set items. is_object i) \<longrightarrow>
       get_qloo_trending w entity_id entity_type calls
         = (Inr (List.map_filter name_field items), calls @ [Trending entity_id entity_type]))
      \<and> (status_code response \<noteq> 200 \<longrightarrow>
           get_qloo_trending w entity_id entity_type calls
             = (Inr [], calls @ [Trending entity_id entity_type])))"
  by (auto simp: get_qloo_trending_falsy get_qloo_trending_reply and_then_simps dict_get_def
      names_of_objects)

theorem trend_fetcher_witness:
  "get_qloo_trending (example_world qloo None None) (JStr ''A1'') ''artist'' []
     = (Inr [JStr ''Discovery'', JStr ''Homework''], [Trending (JStr ''A1'') ''artist''])
   \<and> get_qloo_trending (example_world not_found None None) (JStr ''A1'') ''artist'' []
     = (Inr [], [Trending (JStr ''A1'') ''artist''])"
proof
  from trend_fetcher [of "example_world qloo None None" "''artist''" "[]" "JStr ''A1''"
      "\<lparr>status_code = 200, json_body = Inr trends\<rparr>"
      "[(''results'',
            JArr [JObj [(''name'', JStr ''Discovery'')],
                  JObj [(''entity_id'', JStr ''X'')],
                  JObj [(''name'', JStr ''Homework'')]])]"
      "[JObj [(''name'', JStr ''Discovery'')],
                  JObj [(''entity_id'', JStr ''X'')],
                  JObj [(''name'', JStr ''Homework'')]]"]
  show "get_qloo_trending (example_world qloo None None) (JStr ''A1'') ''artist'' []
     = (Inr [JStr ''Discovery'', JStr ''Homework''], [Trending (JStr ''A1'') ''artist''])"
    by (simp add: example_world_def qloo_def trends_def List.map_filter_simps)
next
  from trend_fetcher [of "example_world not_found None None" "''artist''" "[]" "JStr ''A1''"
      "\<lparr>status_code = 404, json_body = Inl (JSONDecodeError ''Expecting value'')\<rparr>"]
  show "get_qloo_trending (example_world not_found None None) (JStr ''A1'') ''artist'' []
     = (Inr [], [Trending (JStr ''A1'') ''artist''])"
    by (simp add: example_world_def not_found_def)
qed

subsection \<open>A candidate without an identifier\<close>

text \<open>
  Claim C10.  When the first matching candidate has no \<^verbatim>\<open>id\<close>, the resolver returns the
  empty string, not \<^verbatim>\<open>None\<close>.  The fetcher tests the truth value of the identifier, so it
  treats the empty string as it treats \<^verbatim>\<open>None\<close>: the empty list, and no call.
\<close>

theorem missing_identifier:
  assumes "entity_type \<in> {''artist'', ''movie'', ''brand''}"
    and "quote query = Inr safe_query"
    and "requests_get w (length calls) (Autocomplete safe_query) = Inr response"
    and "status_code response = 200"
    and "json_body response = Inr (JObj reply)"
    and "map_of reply ''results'' = Some (JArr rs)"
    and "\<forall>r \<in> set rs. well_formed_candidate r"
    and "find (type_matches entity_type) rs = Some r"
    and "candidate_id r = None"
  shows "fst (autocomplete_entity w query entity_type calls) = Inr (JStr [])
         \<and> get_qloo_trending w (JStr []) entity_type calls' = (Inr [], calls')
         \<and> get_qloo_trending w (JStr []) entity_type calls'
             = get_qloo_trending w JNull entity_type calls'"
proof -
  from assms(1) have low: "lower entity_type = entity_type"
    using lower_categories by auto
  from assms(7,8) obtain kvs where r: "r = JObj kvs" using find_well_formed by blast
  have "fst (autocomplete_entity w query entity_type calls) = py_get r ''id'' (JStr [])"
    using autocomplete_entity_candidates [OF assms(2-7) low] assms(8) by simp
  with assms(9) r have "fst (autocomplete_entity w query entity_type calls) = Inr (JStr [])"
    by (simp add: dict_get_def)
  then show ?thesis by (simp add: get_qloo_trending_falsy)
qed

theorem missing_identifier_witness:
  "fst (autocomplete_entity (example_world qloo None None) (JStr ''Daft Punk'') ''movie'' [])
     = Inr (JStr [])
   \<and> get_qloo_trending (example_world qloo None None) (JStr []) ''movie''
        [Autocomplete ''Daft%20Punk'']
     = (Inr [], [Autocomplete ''Daft%20Punk''])"
proof -
  have "requests_get (example_world qloo None None) (length []) (Autocomplete ''Daft%20Punk'')
          = Inr \<lparr>status_code = 200, json_body = Inr candidates\<rparr>"
    by (simp add: example_world_def qloo_def)
  from missing_identifier [OF _ quote_example this _ _ _ _ find_movie_example,
      of "[(''results'',
            JArr [JObj [(''id'', JStr ''B1''), (''type'', JStr ''urn:entity:Brand'')],
                  JObj [(''type'', JStr ''urn:entity:Movie'')],
                  JObj [(''id'', JStr ''A1''), (''type'', JStr ''urn:entity:Artist'')],
                  JObj [(''id'', JStr ''A2''), (''type'', JStr ''urn:entity:artist'')]])]"
      "[Autocomplete ''Daft%20Punk'']"]
  show ?thesis by (simp add: candidates_def)
qed

subsection \<open>The display language\<close>

lemma target_language_default:
  "code \<notin> {''en'', ''tr'', ''es'', ''fr'', ''de'', ''hi'', ''zh'', ''it''} \<Longrightarrow>
   target_language (JStr code) = Inr ''English''"
  by (simp add: LANGUAGE_MAPPING_def)

lemma target_language_known:
  "(code, name) \<in> set [(''en'', ''English''), (''tr'', ''Turkish''), (''es'', ''Spanish''),
                         (''fr'', ''French''), (''de'', ''German''), (''hi'', ''Hindi''),
                         (''zh'', ''Chinese''), (''it'', ''Italian'')] \<Longrightarrow>
   target_language (JStr code) = Inr name"
  by (auto simp: LANGUAGE_MAPPING_def)

lemma persona_request_sent:
  assumes "target_language language = Inr target"
    and "capped_temperature variation_seed = Inr temperature"
  shows "snd (generate_persona_from_taste w movies music brands gender qloo_suggestions language
                variation_seed calls) =
         calls @ [PersonaChat
                    \<lparr>p_movies = movies, p_music = music, p_brands = brands, p_gender = gender,
                     p_qloo_suggestions = qloo_suggestions, p_target_language = target,
                     p_variation_seed = variation_seed, p_temperature = temperature\<rparr>]"
  using assms
  by (simp add: generate_persona_from_taste_def io_bind_def io_pure_def chat_def
      split: sum.splits)

lemma cultural_request_sent:
  assumes "target_language language = Inr target" and "countries \<noteq> []"
  shows "snd (generate_cultural_map_insights w countries language calls) =
         calls @ [CulturalChat countries target]"
  using assms
  by (simp add: generate_cultural_map_insights_def io_bind_def io_pure_def chat_def
      split: sum.splits)

text \<open>
  Claim C8.  Both synthesizers resolve the language code to a display name and put that
  name into their request to the model: \<^verbatim>\<open>English\<close> for \<^verbatim>\<open>en\<close>, \<^verbatim>\<open>Turkish\<close> for \<^verbatim>\<open>tr\<close>,
  \<^verbatim>\<open>Spanish\<close> for \<^verbatim>\<open>es\<close>, \<^verbatim>\<open>French\<close> for \<^verbatim>\<open>fr\<close>, \<^verbatim>\<open>German\<close> for \<^verbatim>\<open>de\<close>, \<^verbatim>\<open>Hindi\<close> for
  \<^verbatim>\<open>hi\<close>, \<^verbatim>\<open>Chinese\<close> for \<^verbatim>\<open>zh\<close>, \<^verbatim>\<open>Italian\<close> for \<^verbatim>\<open>it\<close>, and \<^verbatim>\<open>English\<close> for every code
  that is none of these eight.
\<close>

theorem display_language:
  assumes "countries \<noteq> []" and "capped_temperature variation_seed = Inr temperature"
  shows "(code \<notin> {''en'', ''tr'', ''es'', ''fr'', ''de'', ''hi'', ''zh'', ''it''} \<longrightarrow>
            snd (generate_persona_from_taste w movies music brands gender qloo_suggestions
                   (JStr code) variation_seed calls) =
              calls @ [PersonaChat
                         \<lparr>p_movies = movies, p_music = music, p_brands = brands,
                          p_gender = gender, p_qloo_suggestions = qloo_suggestions,
                          p_target_language = ''English'', p_variation_seed = variation_seed,
                          p_temperature = temperature\<rparr>]
            \<and> snd (generate_cultural_map_insights w countries (JStr code) calls) =
                calls @ [CulturalChat countries ''English''])
         \<and> (\<forall>name.
              (code, name) \<in> set [(''en'', ''English''), (''tr'', ''Turkish''),
                                   (''es'', ''Spanish''), (''fr'', ''French''),
                                   (''de'', ''German''), (''hi'', ''Hindi''),
                                   (''zh'', ''Chinese''), (''it'', ''Italian'')] \<longrightarrow>
              snd (generate_persona_from_taste w movies music brands gender qloo_suggestions
                     (JStr code) variation_seed calls) =
                calls @ [PersonaChat
                           \<lparr>p_movies = movies, p_music = music, p_brands = brands,
                            p_gender = gender, p_qloo_suggestions = qloo_suggestions,
                            p_target_language = name, p_variation_seed = variation_seed,
                            p_temperature = temperature\<rparr>]
              \<and> snd (generate_cultural_map_insights w countries (JStr code) calls) =
                  calls @ [CulturalChat countries name])"
proof (intro conjI impI allI)
  assume "code \<notin> {''en'', ''tr'', ''es'', ''fr'', ''de'', ''hi'', ''zh'', ''it''}"
  then have t: "target_language (JStr code) = Inr ''English''"
    by (rule target_language_default)
  show "snd (generate_persona_from_taste w movies music brands gender qloo_suggestions
               (JStr code) variation_seed calls) =
          calls @ [PersonaChat
                     \<lparr>p_movies = movies, p_music = music, p_brands = brands,
                      p_gender = gender, p_qloo_suggestions = qloo_suggestions,
                      p_target_language = ''English'', p_variation_seed = variation_seed,
                      p_temperature = temperature\<rparr>]"
    by (rule persona_request_sent [OF t assms(2)])
  show "snd (generate_cultural_map_insights w countries (JStr code) calls) =
          calls @ [CulturalChat countries ''English'']"
    by (rule cultural_request_sent [OF t assms(1)])
next
  fix name
  assume "(code, name) \<in> set [(''en'', ''English''), (''tr'', ''Turkish''),
                                (''es'', ''Spanish''), (''fr'', ''French''),
                                (''de'', ''German''), (''hi'', ''Hindi''),
                                (''zh'', ''Chinese''), (''it'', ''Italian'')]"
  then have t: "target_language (JStr code) = Inr name"
    by (rule target_language_known)
  show "snd (generate_persona_from_taste w movies music brands gender qloo_suggestions
               (JStr code) variation_seed calls) =
          calls @ [PersonaChat
                     \<lparr>p_movies = movies, p_music = music, p_brands = brands,
                      p_gender = gender, p_qloo_suggestions = qloo_suggestions,
                      p_target_language = name, p_variation_seed = variation_seed,
                      p_temperature = temperature\<rparr>]"
    by (rule persona_request_sent [OF t assms(2)])
  show "snd (generate_cultural_map_insights w countries (JStr code) calls) =
          calls @ [CulturalChat countries name]"
    by (rule cultural_request_sent [OF t assms(1)])
qed

lemma temperature_zero:
  "capped_temperature (JInt 0) = Inr (Finite (3602879701896397 / 4503599627370496))"
  by code_simp

theorem display_language_witness:
  "snd (generate_cultural_map_insights (example_world qloo None None) [''USA'', ''UK'']
          (JStr ''xx'') []) = [CulturalChat [''USA'', ''UK''] ''English'']
   \<and> snd (generate_cultural_map_insights (example_world qloo None None) [''USA'', ''UK'']
            (JStr ''fr'') []) = [CulturalChat [''USA'', ''UK''] ''French'']
   \<and> snd (generate_cultural_map_insights (example_world qloo None None) [''USA'', ''UK'']
            (JStr ''tr'') []) = [CulturalChat [''USA'', ''UK''] ''Turkish'']
   \<and> snd (generate_persona_from_taste (example_world qloo None None) JNull JNull JNull JNull []
            (JStr ''fr'') (JInt 0) []) =
       [PersonaChat
          \<lparr>p_movies = JNull, p_music = JNull, p_brands = JNull, p_gender = JNull,
           p_qloo_suggestions = [], p_target_language = ''French'', p_variation_seed = JInt 0,
           p_temperature = Finite (3602879701896397 / 4503599627370496)\<rparr>]"
proof -
  have ne: "[''USA'', ''UK''] \<noteq> []" by simp
  have fr: "(''fr'', ''French'') \<in> set [(''en'', ''English''), (''tr'', ''Turkish''),
                                         (''es'', ''Spanish''), (''fr'', ''French''),
                                         (''de'', ''German''), (''hi'', ''Hindi''),
                                         (''zh'', ''Chinese''), (''it'', ''Italian'')]"
    by simp
  have tr: "(''tr'', ''Turkish'') \<in> set [(''en'', ''English''), (''tr'', ''Turkish''),
                                          (''es'', ''Spanish''), (''fr'', ''French''),
                                          (''de'', ''German''), (''hi'', ''Hindi''),
                                          (''zh'', ''Chinese''), (''it'', ''Italian'')]"
    by simp
  have xx: "''xx'' \<notin> {''en'', ''tr'', ''es'', ''fr'', ''de'', ''hi'', ''zh'', ''it''}" by simp
  from display_language [OF ne temperature_zero, of "''xx''"] xx
    display_language [OF ne temperature_zero, of "''fr''"] fr
    display_language [OF ne temperature_zero, of "''tr''"] tr
  show ?thesis by simp
qed

subsection \<open>The combined suggestion list\<close>

lemma io_bind_Inr:
  "io_bind m f c = (Inr r, c') \<Longrightarrow> \<exists>v c1. m c = (Inr v, c1) \<and> f v c1 = (Inr r, c')"
  by (auto simp: io_bind_def split: prod.splits sum.splits)

lemma io_pure_eq: "io_pure x c = (y, c') \<longleftrightarrow> x = y \<and> c = c'"
  by (auto simp: io_pure_def)

lemma analyze_profile_body:
  "analyze_profile w (Inr body) =
     (case analyze_body w body [] of
        (Inl e, calls) \<Rightarrow> (Inl (HTTPException 500 (''Analysis failed: '' @ str_exn e)), calls)
      | (Inr r, calls) \<Rightarrow> (Inr r, calls))"
  by (simp add: analyze_profile_def io_bind_pure)

lemma qloo_signals_runs:
  assumes "qloo_signals w body c = (Inr (variation, language, music_trends, movie_trends,
             brand_trends), c')"
  shows "\<exists>music movies brands music_id movie_id brand_id c1 c2 c3 c4 c5.
           py_get body ''variation'' (JInt 0) = Inr variation
           \<and> py_get body ''language'' (JStr ''en'') = Inr language
           \<and> py_subscript body ''music'' = Inr music
           \<and> py_subscript body ''movies'' = Inr movies
           \<and> py_subscript body ''brands'' = Inr brands
           \<and> autocomplete_entity w music ''artist'' c = (Inr music_id, c1)
           \<and> autocomplete_entity w movies ''movie'' c1 = (Inr movie_id, c2)
           \<and> autocomplete_entity w brands ''brand'' c2 = (Inr brand_id, c3)
           \<and> get_qloo_trending w music_id ''artist'' c3 = (Inr music_trends, c4)
           \<and> get_qloo_trending w movie_id ''movie'' c4 = (Inr movie_trends, c5)
           \<and> get_qloo_trending w brand_id ''brand'' c5 = (Inr brand_trends, c')"
  using assms unfolding qloo_signals_def
  by (auto simp: io_pure_eq dest!: io_bind_Inr)

lemma persona_run:
  assumes "target_language language = Inr target"
    and "capped_temperature variation_seed = Inr temperature"
    and "generate_persona_from_taste w movies music brands gender qloo_suggestions language
           variation_seed calls = (r, calls')"
  shows "calls' =
         calls @ [PersonaChat
                    \<lparr>p_movies = movies, p_music = music, p_brands = brands, p_gender = gender,
                     p_qloo_suggestions = qloo_suggestions, p_target_language = target,
                     p_variation_seed = variation_seed, p_temperature = temperature\<rparr>]"
  using persona_request_sent [OF assms(1,2), of w movies music brands gender qloo_suggestions
      calls] assms(3)
  by simp

lemma cultural_run:
  assumes "target_language language = Inr target" and "countries \<noteq> []"
    and "generate_cultural_map_insights w countries language calls = (r, calls')"
  shows "calls' = calls @ [CulturalChat countries target]"
  using cultural_request_sent [OF assms(1,2), of w calls] assms(3)
  by simp

lemma cultural_run_handler:
  assumes "target_language language = Inr target"
    and "generate_cultural_map_insights w [''USA'', ''South Korea'', ''UK'', ''Japan''] language
           calls = (r, calls')"
  shows "calls' = calls @ [CulturalChat [''USA'', ''South Korea'', ''UK'', ''Japan''] target]"
  using cultural_run [OF assms(1) _ assms(2)] by simp

text \<open>
  Claim C7.  When the taste-graph part of a request has returned the three trend lists,
  the request the handler sends to the model for the persona is the next call, and its
  suggestion list is the music trends, then the movie trends, then the brand trends,
  whatever the lists are.  The three lists are what the three calls of the fetcher
  returned, for \<^verbatim>\<open>artist\<close>, \<^verbatim>\<open>movie\<close> and \<^verbatim>\<open>brand\<close> in this order.
\<close>

theorem suggestion_order:
  assumes "qloo_signals w body [] =
             (Inr (variation, language, music_trends, movie_trends, brand_trends), calls)"
    and "py_subscript body ''gender'' = Inr gender"
    and "target_language language = Inr target"
    and "capped_temperature variation = Inr temperature"
  shows "(\<exists>p rest. snd (analyze_profile w (Inr body)) = calls @ PersonaChat p # rest
            \<and> p_qloo_suggestions p = music_trends @ movie_trends @ brand_trends)
         \<and> (\<exists>music_id movie_id brand_id c3 c4 c5.
               get_qloo_trending w music_id ''artist'' c3 = (Inr music_trends, c4)
               \<and> get_qloo_trending w movie_id ''movie'' c4 = (Inr movie_trends, c5)
               \<and> get_qloo_trending w brand_id ''brand'' c5 = (Inr brand_trends, calls))"
proof
  from qloo_signals_runs [OF assms(1)] obtain music movies brands where
    f: "py_subscript body ''music'' = Inr music" "py_subscript body ''movies'' = Inr movies"
       "py_subscript body ''brands'' = Inr brands"
    by blast
  define p where "p = \<lparr>p_movies = movies, p_music = music, p_brands = brands, p_gender = gender,
     p_qloo_suggestions = music_trends @ movie_trends @ brand_trends, p_target_language = target,
     p_variation_seed = variation, p_temperature = temperature\<rparr>"
  have "\<exists>rest. snd (analyze_profile w (Inr body)) = calls @ PersonaChat p # rest"
    using assms f
    by (auto simp: analyze_profile_body analyze_body_def io_bind_def io_pure_def p_def
        split: prod.splits sum.splits
        dest!: persona_run [OF assms(3,4)] cultural_run_handler [OF assms(3)])
  moreover have "p_qloo_suggestions p = music_trends @ movie_trends @ brand_trends"
    by (simp add: p_def)
  ultimately show "\<exists>p rest. snd (analyze_profile w (Inr body)) = calls @ PersonaChat p # rest
            \<and> p_qloo_suggestions p = music_trends @ movie_trends @ brand_trends"
    by blast
next
  from qloo_signals_runs [OF assms(1)]
  show "\<exists>music_id movie_id brand_id c3 c4 c5.
               get_qloo_trending w music_id ''artist'' c3 = (Inr music_trends, c4)
               \<and> get_qloo_trending w movie_id ''movie'' c4 = (Inr movie_trends, c5)
               \<and> get_qloo_trending w brand_id ''brand'' c5 = (Inr brand_trends, calls)"
    by blast
qed

lemma signals_example:
  "qloo_signals (example_world qloo persona insights) (JObj example_body) [] =
     (Inr (JInt 0, JStr ''en'', [JStr ''Discovery'', JStr ''Homework''], [],
           [JStr ''Discovery'', JStr ''Homework'']),
      [Autocomplete ''Daft%20Punk'', Autocomplete ''Inception'', Autocomplete ''Nike'',
       Trending (JStr ''A1'') ''artist'', Trending (JStr ''B1'') ''brand''])"
  by code_simp

lemma gender_example: "py_subscript (JObj example_body) ''gender'' = Inr (JStr ''male'')"
  by code_simp

lemma english_example: "target_language (JStr ''en'') = Inr ''English''"
  by code_simp

theorem suggestion_order_witness:
  "\<exists>p rest.
     snd (analyze_profile (example_world qloo (Some ''PERSONA'') None) (Inr (JObj example_body)))
       = [Autocomplete ''Daft%20Punk'', Autocomplete ''Inception'', Autocomplete ''Nike'',
          Trending (JStr ''A1'') ''artist'', Trending (JStr ''B1'') ''brand'']
         @ PersonaChat p # rest
     \<and> p_qloo_suggestions p
         = [JStr ''Discovery'', JStr ''Homework''] @ [] @ [JStr ''Discovery'', JStr ''Homework'']"
  using suggestion_order [OF signals_example gender_example english_example temperature_zero]
  by blast

subsection \<open>An empty persona completion\<close>

lemma io_bind_snd_inv:
  assumes "\<And>c. P c \<Longrightarrow> P (snd (m c))" and "\<And>v c. P c \<Longrightarrow> P (snd (f v c))" and "P c"
  shows "P (snd (io_bind m f c))"
proof (cases "m c")
  case (Pair r c1)
  from assms(1) [OF assms(3)] Pair have c1: "P c1" by simp
  show ?thesis
  proof (cases r)
    case (Inl e)
    with Pair c1 show ?thesis by (simp add: io_bind_def)
  next
    case (Inr v)
    with Pair assms(2) [OF c1, of v] show ?thesis by (simp add: io_bind_def)
  qed
qed

lemma autocomplete_entity_calls:
  "snd (autocomplete_entity w query entity_type c) = c
   \<or> (\<exists>s. snd (autocomplete_entity w query entity_type c) = c @ [Autocomplete s])"
  by (auto simp: autocomplete_entity_def io_bind_def io_pure_def http_get_def
      split: sum.splits prod.splits)

lemma get_qloo_trending_calls:
  "snd (get_qloo_trending w entity_id entity_type c) = c
   \<or> snd (get_qloo_trending w entity_id entity_type c) = c @ [Trending entity_id entity_type]"
  by (auto simp: get_qloo_trending_def io_bind_def io_pure_def http_get_def
      split: sum.splits prod.splits)

lemma qloo_signals_no_persona:
  assumes "\<forall>p. PersonaChat p \<notin> set c"
  shows "\<forall>p. PersonaChat p \<notin> set (snd (qloo_signals w body c))"
proof -
  have a: "\<forall>p. PersonaChat p \<notin> set (snd (autocomplete_entity w q t c))"
    if "\<forall>p. PersonaChat p \<notin> set c" for q t c
    using autocomplete_entity_calls [of w q t c] that by auto
  have b: "\<forall>p. PersonaChat p \<notin> set (snd (get_qloo_trending w i t c))"
    if "\<forall>p. PersonaChat p \<notin> set c" for i t c
    using get_qloo_trending_calls [of w i t c] that by auto
  have p: "\<forall>p. PersonaChat p \<notin> set (snd (io_pure x c))"
    if "\<forall>p. PersonaChat p \<notin> set c" for x :: "exn + 'x" and c
    using that by (simp add: io_pure_def)
  show ?thesis
    unfolding qloo_signals_def
    by (intro io_bind_snd_inv [where P = "\<lambda>c. \<forall>p. PersonaChat p \<notin> set c"] a b p assms)
qed

lemma str_nat_500: "str_nat 500 = ''500''"
  by code_simp

lemma persona_empty_content:
  assumes "\<forall>n p. \<exists>content rest.
             chat_create w n (PersonaChat p) = Inr (content # rest)
             \<and> (content = None \<or> content = Some [])"
  shows "\<exists>e c'. generate_persona_from_taste w movies music brands gender qloo_suggestions
                  language variation_seed c = (Inl e, c')
           \<and> (c' = c \<or> (\<exists>p. c' = c @ [PersonaChat p])
                          \<and> e = HTTPException 500 ''GPT returned empty response'')"
proof (cases "target_language language")
  case (Inl e)
  then show ?thesis by (simp add: generate_persona_from_taste_def io_bind_def io_pure_def)
next
  case target: (Inr target)
  show ?thesis
  proof (cases "capped_temperature variation_seed")
    case (Inl e)
    with target show ?thesis
      by (simp add: generate_persona_from_taste_def io_bind_def io_pure_def)
  next
    case (Inr temperature)
    define p where "p = \<lparr>p_movies = movies, p_music = music, p_brands = brands,
      p_gender = gender, p_qloo_suggestions = qloo_suggestions, p_target_language = target,
      p_variation_seed = variation_seed, p_temperature = temperature\<rparr>"
    from assms obtain content rest where
      "chat_create w (length c) (PersonaChat p) = Inr (content # rest)"
      "content = None \<or> content = Some []"
      by blast
    with target Inr show ?thesis
      by (auto simp: generate_persona_from_taste_def io_bind_def io_pure_def chat_def p_def)
  qed
qed

lemma analyze_body_empty_persona:
  assumes "\<forall>n p. \<exists>content rest.
             chat_create w n (PersonaChat p) = Inr (content # rest)
             \<and> (content = None \<or> content = Some [])"
  shows "\<exists>e c. analyze_body w body [] = (Inl e, c)
           \<and> ((\<exists>p. PersonaChat p \<in> set c) \<longrightarrow>
                e = HTTPException 500 ''GPT returned empty response'')"
proof -
  obtain r c where sig: "qloo_signals w body [] = (r, c)" by fastforce
  have np: "\<forall>p. PersonaChat p \<notin> set c"
    using qloo_signals_no_persona [of "[]" w body] sig by simp
  show ?thesis
  proof (cases r)
    case (Inl e)
    with sig np show ?thesis by (simp add: analyze_body_def io_bind_def)
  next
    case (Inr s)
    obtain variation language mt vt bt where s: "s = (variation, language, mt, vt, bt)"
      by (cases s) auto
    have persona: "\<exists>e c'. generate_persona_from_taste w movies music brands gender
                  (mt @ vt @ bt) language variation c = (Inl e, c')
           \<and> (c' = c \<or> (\<exists>p. c' = c @ [PersonaChat p])
                          \<and> e = HTTPException 500 ''GPT returned empty response'')"
      for movies music brands gender
      by (rule persona_empty_content [OF assms])
    show ?thesis
    proof (cases "py_subscript body ''movies''")
      case (Inl e)
      with sig np Inr s show ?thesis by (simp add: analyze_body_def io_bind_def io_pure_def)
    next
      case movies: (Inr movies)
      show ?thesis
      proof (cases "py_subscript body ''music''")
        case (Inl e)
        with sig np Inr s movies show ?thesis
          by (simp add: analyze_body_def io_bind_def io_pure_def)
      next
        case music: (Inr music)
        show ?thesis
        proof (cases "py_subscript body ''brands''")
          case (Inl e)
          with sig np Inr s movies music show ?thesis
            by (simp add: analyze_body_def io_bind_def io_pure_def)
        next
          case brands: (Inr brands)
          show ?thesis
          proof (cases "py_subscript body ''gender''")
            case (Inl e)
            with sig np Inr s movies music brands show ?thesis
              by (simp add: analyze_body_def io_bind_def io_pure_def)
          next
            case gender: (Inr gender)
            from persona [of movies music brands gender] obtain e c' where
              run: "generate_persona_from_taste w movies music brands gender
                  (mt @ vt @ bt) language variation c = (Inl e, c')"
              and c': "c' = c \<or> (\<exists>p. c' = c @ [PersonaChat p])
                          \<and> e = HTTPException 500 ''GPT returned empty response''"
              by blast
            from sig Inr s movies music brands gender run
            have "analyze_body w body [] = (Inl e, c')"
              by (simp add: analyze_body_def io_bind_def io_pure_def)
            with c' np show ?thesis by auto
          qed
        qed
      qed
    qed
  qed
qed

text \<open>
  Claim C3.  Let the model answer every persona request with a missing or an empty
  content.  Then no request is answered with status 200: every request fails with status
  500.  A request that reached the persona call fails with the detail
  \<^verbatim>\<open>Analysis failed: 500: GPT returned empty response\<close>, which contains the fixed message.
\<close>

theorem empty_persona_content:
  assumes "\<forall>n p. \<exists>content rest.
             chat_create w n (PersonaChat p) = Inr (content # rest)
             \<and> (content = None \<or> content = Some [])"
  shows "(\<exists>d. fst (analyze_profile w req) = Inl (HTTPException 500 d))
         \<and> ((\<exists>p. PersonaChat p \<in> set (snd (analyze_profile w req))) \<longrightarrow>
              fst (analyze_profile w req)
                = Inl (HTTPException 500 ''Analysis failed: 500: GPT returned empty response''))
         \<and> sublist ''GPT returned empty response''
              ''Analysis failed: 500: GPT returned empty response''"
proof (intro conjI)
  show "sublist ''GPT returned empty response''
          ''Analysis failed: 500: GPT returned empty response''"
    using sublist_append_leftI [of "''GPT returned empty response''" "''Analysis failed: 500: ''"]
    by simp
next
  show "\<exists>d. fst (analyze_profile w req) = Inl (HTTPException 500 d)"
  proof (cases req)
    case (Inl e)
    then show ?thesis by (simp add: analyze_profile_def io_bind_pure)
  next
    case (Inr body)
    with analyze_body_empty_persona [OF assms, of body] show ?thesis
      by (auto simp: analyze_profile_body)
  qed
next
  show "(\<exists>p. PersonaChat p \<in> set (snd (analyze_profile w req))) \<longrightarrow>
          fst (analyze_profile w req)
            = Inl (HTTPException 500 ''Analysis failed: 500: GPT returned empty response'')"
  proof (cases req)
    case (Inl e)
    then show ?thesis by (simp add: analyze_profile_def io_bind_pure)
  next
    case (Inr body)
    with analyze_body_empty_persona [OF assms, of body] show ?thesis
      by (auto simp: analyze_profile_body str_nat_500 simp del: str_nat.simps)
  qed
qed

lemma empty_persona_example:
  "analyze_profile (example_world qloo None None) (Inr (JObj example_body)) =
     (Inl (HTTPException 500 ''Analysis failed: 500: GPT returned empty response''),
      [Autocomplete ''Daft%20Punk'', Autocomplete ''Inception'', Autocomplete ''Nike'',
       Trending (JStr ''A1'') ''artist'', Trending (JStr ''B1'') ''brand'',
       PersonaChat
         \<lparr>p_movies = JStr ''Inception'', p_music = JStr ''Daft Punk'', p_brands = JStr ''Nike'',
          p_gender = JStr ''male'',
          p_qloo_suggestions =
            [JStr ''Discovery'', JStr ''Homework'', JStr ''Discovery'', JStr ''Homework''],
          p_target_language = ''English'', p_variation_seed = JInt 0,
          p_temperature = Finite (3602879701896397 / 4503599627370496)\<rparr>])"
  by code_simp

theorem empty_persona_content_witness:
  "(\<exists>p. PersonaChat p
          \<in> set (snd (analyze_profile (example_world qloo None None)
                        (Inr (JObj example_body)))))
   \<and> fst (analyze_profile (example_world qloo None None) (Inr (JObj example_body)))
       = Inl (HTTPException 500 ''Analysis failed: 500: GPT returned empty response'')
   \<and> (\<exists>d. fst (analyze_profile (example_world qloo (Some []) None) (Inr (JArr [])))
             = Inl (HTTPException 500 d))"
proof -
  have none: "\<forall>n p. \<exists>content rest.
             chat_create (example_world qloo None None) n (PersonaChat p) = Inr (content # rest)
             \<and> (content = None \<or> content = Some [])"
    by (simp add: example_world_def gpt_def)
  have empty: "\<forall>n p. \<exists>content rest.
             chat_create (example_world qloo (Some []) None) n (PersonaChat p)
               = Inr (content # rest)
             \<and> (content = None \<or> content = Some [])"
    by (simp add: example_world_def gpt_def)
  have "\<exists>p. PersonaChat p
          \<in> set (snd (analyze_profile (example_world qloo None None)
                        (Inr (JObj example_body))))"
    by (simp add: empty_persona_example)
  with empty_persona_content [OF none, of "Inr (JObj example_body)"]
    empty_persona_content [OF empty, of "Inr (JArr [])"]
  show ?thesis by blast
qed

subsection \<open>Empty or unparsable country insights\<close>

lemma cultural_empty_content:
  assumes "\<forall>n cs t. \<exists>content rest.
             chat_create w n (CulturalChat cs t) = Inr (content # rest)
             \<and> (content = None \<or> content = Some []
                  \<or> (\<exists>s e. content = Some s \<and> json_loads w s = Inl e))"
    and "target_language language = Inr target"
  shows "fst (generate_cultural_map_insights w countries language calls) = Inr []"
proof (cases "countries = []")
  case True
  then show ?thesis by (simp add: generate_cultural_map_insights_def io_pure_def)
next
  case False
  from assms(1) obtain content rest where
    "chat_create w (length calls) (CulturalChat countries target) = Inr (content # rest)"
    "content = None \<or> content = Some [] \<or> (\<exists>s e. content = Some s \<and> json_loads w s = Inl e)"
    by blast
  with False assms(2) show ?thesis
    by (auto simp: generate_cultural_map_insights_def io_bind_def io_pure_def chat_def
        parse_cultural_map_def and_then_simps)
qed

lemma persona_returns_language:
  assumes "generate_persona_from_taste w movies music brands gender qloo_suggestions language
             variation_seed c = (Inr ai_result, c')"
  shows "\<exists>target. target_language language = Inr target"
  using assms
  by (cases "target_language language")
    (simp_all add: generate_persona_from_taste_def io_bind_def io_pure_def)

text \<open>
  Claim C4.  Let the model answer every country-insight request with a missing content, an
  empty content, or a content that \<^verbatim>\<open>json.loads\<close> rejects.  Then the Cultural Map
  Synthesizer returns the empty mapping and raises nothing.  In a request whose persona
  part succeeded (the model's persona text parsed to an object) the handler returns the
  payload with an empty \<^verbatim>\<open>countryInsights\<close>, and the request is answered with status 200
  and that payload provided the framework can encode it; a payload it cannot encode, which
  the persona's \<^verbatim>\<open>culturalTwin\<close> alone decides here, is answered with the bare status 500.
\<close>

theorem empty_country_insights:
  assumes "\<forall>n cs t. \<exists>content rest.
             chat_create w n (CulturalChat cs t) = Inr (content # rest)
             \<and> (content = None \<or> content = Some []
                  \<or> (\<exists>s e. content = Some s \<and> json_loads w s = Inl e))"
  shows "(target_language language = Inr target \<longrightarrow>
            fst (generate_cultural_map_insights w countries language calls) = Inr [])
         \<and> (qloo_signals w body [] =
               (Inr (variation, language, music_trends, movie_trends, brand_trends), c1)
             \<and> py_subscript body ''movies'' = Inr movies
             \<and> py_subscript body ''music'' = Inr music
             \<and> py_subscript body ''brands'' = Inr brands
             \<and> py_subscript body ''gender'' = Inr gender
             \<and> generate_persona_from_taste w movies music brands gender
                 (music_trends @ movie_trends @ brand_trends) language variation c1
                 = (Inr ai_result, c2)
             \<and> json_loads w ai_result = Inr (JObj persona)
             \<and> payload = \<lparr>result = json_dumps w (JObj persona),
                           culturalTwin = dict_get persona ''culturalTwin'' (JStr ''Unknown''),
                           countryInsights = []\<rparr> \<longrightarrow>
            fst (analyze_profile w (Inr body)) = Inr payload
            \<and> (renders payload \<longrightarrow>
                 fst (post_analyze renders w (Inr body)) = Rendered payload)
            \<and> (\<not> renders payload \<longrightarrow>
                 fst (post_analyze renders w (Inr body)) = Unhandled))"
  (is "_ \<and> (?run \<longrightarrow> ?answer)")
proof (rule conjI)
  show "target_language language = Inr target \<longrightarrow>
          fst (generate_cultural_map_insights w countries language calls) = Inr []"
    using cultural_empty_content [OF assms] by blast
next
  show "?run \<longrightarrow> ?answer"
  proof (rule impI)
    assume run: ?run
    then obtain t where t: "target_language language = Inr t"
      using persona_returns_language by blast
    obtain r c3 where
      cult: "generate_cultural_map_insights w [''USA'', ''South Korea'', ''UK'', ''Japan'']
               language c2 = (r, c3)"
      by fastforce
    with cultural_empty_content [OF assms t,
        of "[''USA'', ''South Korea'', ''UK'', ''Japan'']" c2]
    have "r = Inr []" by simp
    with run cult have "analyze_body w body [] = (Inr payload, c3)"
      by (simp add: analyze_body_def io_bind_def io_pure_def)
    then have "analyze_profile w (Inr body) = (Inr payload, c3)"
      by (simp add: analyze_profile_def io_bind_def io_pure_def)
    then show ?answer
      by (simp add: post_analyze_def)
  qed
qed

lemma persona_example:
  "generate_persona_from_taste (example_world qloo (Some ''PERSONA'') insights)
     (JStr ''Inception'') (JStr ''Daft Punk'') (JStr ''Nike'') (JStr ''male'')
     ([JStr ''Discovery'', JStr ''Homework''] @ [] @ [JStr ''Discovery'', JStr ''Homework''])
     (JStr ''en'') (JInt 0)
     [Autocomplete ''Daft%20Punk'', Autocomplete ''Inception'', Autocomplete ''Nike'',
      Trending (JStr ''A1'') ''artist'', Trending (JStr ''B1'') ''brand'']
   = (Inr ''PERSONA'',
      [Autocomplete ''Daft%20Punk'', Autocomplete ''Inception'', Autocomplete ''Nike'',
       Trending (JStr ''A1'') ''artist'', Trending (JStr ''B1'') ''brand'',
       PersonaChat
         \<lparr>p_movies = JStr ''Inception'', p_music = JStr ''Daft Punk'', p_brands = JStr ''Nike'',
          p_gender = JStr ''male'',
          p_qloo_suggestions =
            [JStr ''Discovery'', JStr ''Homework'', JStr ''Discovery'', JStr ''Homework''],
          p_target_language = ''English'', p_variation_seed = JInt 0,
          p_temperature = Finite (3602879701896397 / 4503599627370496)\<rparr>])"
  by code_simp

lemma fields_example:
  "py_subscript (JObj example_body) ''movies'' = Inr (JStr ''Inception'')"
  "py_subscript (JObj example_body) ''music'' = Inr (JStr ''Daft Punk'')"
  "py_subscript (JObj example_body) ''brands'' = Inr (JStr ''Nike'')"
  by code_simp+

lemma loads_persona_example:
  "json_loads (example_world service persona insights) ''PERSONA''
     = Inr (JObj [(''personaName'', JStr ''Night Owl'')])"
  by (simp add: example_world_def loads_def)

lemma compliant_example:
  "compliant \<lparr>result = ''{}'', culturalTwin = JStr ''Unknown'', countryInsights = []\<rparr>"
  by (simp add: compliant_def)

theorem empty_country_insights_witness:
  "fst (post_analyze compliant (example_world qloo (Some ''PERSONA'') None)
          (Inr (JObj example_body)))
     = Rendered \<lparr>result = ''{}'', culturalTwin = JStr ''Unknown'', countryInsights = []\<rparr>
   \<and> fst (post_analyze compliant (example_world qloo (Some ''PERSONA'') (Some ''junk''))
            (Inr (JObj example_body)))
     = Rendered \<lparr>result = ''{}'', culturalTwin = JStr ''Unknown'', countryInsights = []\<rparr>
   \<and> fst (post_analyze (\<lambda>payload. False) (example_world qloo (Some ''PERSONA'') None)
            (Inr (JObj example_body)))
     = Unhandled
   \<and> fst (generate_cultural_map_insights (example_world qloo (Some ''PERSONA'') (Some []))
            [''USA'', ''UK''] (JStr ''en'') []) = Inr []"
proof -
  have h: "\<forall>n cs t. \<exists>content rest.
             chat_create (example_world qloo (Some ''PERSONA'') insights) n (CulturalChat cs t)
               = Inr (content # rest)
             \<and> (content = None \<or> content = Some []
                  \<or> (\<exists>s e. content = Some s
                        \<and> json_loads (example_world qloo (Some ''PERSONA'') insights) s = Inl e))"
    if "insights = None \<or> insights = Some [] \<or> insights = Some ''junk''" for insights
  proof (intro allI)
    fix n cs t
    have "chat_create (example_world qloo (Some ''PERSONA'') insights) n (CulturalChat cs t)
            = Inr (insights # [])"
      by (simp add: example_world_def gpt_def)
    moreover have "json_loads (example_world qloo (Some ''PERSONA'') insights) ''junk''
            = Inl (JSONDecodeError ''Expecting value'')"
      by (simp add: example_world_def loads_def)
    ultimately show "\<exists>content rest.
             chat_create (example_world qloo (Some ''PERSONA'') insights) n (CulturalChat cs t)
               = Inr (content # rest)
             \<and> (content = None \<or> content = Some []
                  \<or> (\<exists>s e. content = Some s
                        \<and> json_loads (example_world qloo (Some ''PERSONA'') insights) s = Inl e))"
      using that by blast
  qed
  have d: "json_dumps (example_world qloo (Some ''PERSONA'') insights) j = ''{}''"
    for insights j
    by (simp add: example_world_def)
  have twin: "dict_get [(''personaName'', JStr ''Night Owl'')] ''culturalTwin'' (JStr ''Unknown'')
                = JStr ''Unknown''"
    by (simp add: dict_get_def)
  have p: "\<lparr>result = ''{}'', culturalTwin = JStr ''Unknown'', countryInsights = []\<rparr>
             = \<lparr>result = json_dumps (example_world qloo (Some ''PERSONA'') insights)
                            (JObj [(''personaName'', JStr ''Night Owl'')]),
                 culturalTwin = dict_get [(''personaName'', JStr ''Night Owl'')] ''culturalTwin''
                                  (JStr ''Unknown''),
                 countryInsights = []\<rparr>"
    for insights
    by (simp only: d twin)
  have run: "qloo_signals (example_world qloo (Some ''PERSONA'') insights) (JObj example_body) []
       = (Inr (JInt 0, JStr ''en'', [JStr ''Discovery'', JStr ''Homework''], [],
               [JStr ''Discovery'', JStr ''Homework'']),
          [Autocomplete ''Daft%20Punk'', Autocomplete ''Inception'', Autocomplete ''Nike'',
           Trending (JStr ''A1'') ''artist'', Trending (JStr ''B1'') ''brand''])
     \<and> py_subscript (JObj example_body) ''movies'' = Inr (JStr ''Inception'')
     \<and> py_subscript (JObj example_body) ''music'' = Inr (JStr ''Daft Punk'')
     \<and> py_subscript (JObj example_body) ''brands'' = Inr (JStr ''Nike'')
     \<and> py_subscript (JObj example_body) ''gender'' = Inr (JStr ''male'')
     \<and> generate_persona_from_taste (example_world qloo (Some ''PERSONA'') insights)
          (JStr ''Inception'') (JStr ''Daft Punk'') (JStr ''Nike'') (JStr ''male'')
          ([JStr ''Discovery'', JStr ''Homework''] @ [] @ [JStr ''Discovery'', JStr ''Homework''])
          (JStr ''en'') (JInt 0)
          [Autocomplete ''Daft%20Punk'', Autocomplete ''Inception'', Autocomplete ''Nike'',
           Trending (JStr ''A1'') ''artist'', Trending (JStr ''B1'') ''brand'']
        = (Inr ''PERSONA'',
           [Autocomplete ''Daft%20Punk'', Autocomplete ''Inception'', Autocomplete ''Nike'',
            Trending (JStr ''A1'') ''artist'', Trending (JStr ''B1'') ''brand'',
            PersonaChat
              \<lparr>p_movies = JStr ''Inception'', p_music = JStr ''Daft Punk'',
               p_brands = JStr ''Nike'', p_gender = JStr ''male'',
               p_qloo_suggestions =
                 [JStr ''Discovery'', JStr ''Homework'', JStr ''Discovery'', JStr ''Homework''],
               p_target_language = ''English'', p_variation_seed = JInt 0,
               p_temperature = Finite (3602879701896397 / 4503599627370496)\<rparr>])
     \<and> json_loads (example_world qloo (Some ''PERSONA'') insights) ''PERSONA''
         = Inr (JObj [(''personaName'', JStr ''Night Owl'')])
     \<and> \<lparr>result = ''{}'', culturalTwin = JStr ''Unknown'', countryInsights = []\<rparr>
         = \<lparr>result = json_dumps (example_world qloo (Some ''PERSONA'') insights)
                        (JObj [(''personaName'', JStr ''Night Owl'')]),
             culturalTwin = dict_get [(''personaName'', JStr ''Night Owl'')] ''culturalTwin''
                              (JStr ''Unknown''),
             countryInsights = []\<rparr>"
    for insights
    by (intro conjI signals_example fields_example gender_example persona_example
        loads_persona_example p)
  have a: "fst (post_analyze compliant (example_world qloo (Some ''PERSONA'') None)
                 (Inr (JObj example_body)))
     = Rendered \<lparr>result = ''{}'', culturalTwin = JStr ''Unknown'', countryInsights = []\<rparr>"
    using empty_country_insights [where renders = compliant, OF h, THEN conjunct2, THEN mp,
        OF _ run, THEN conjunct2, THEN conjunct1, THEN mp, OF _ compliant_example, of None]
    by (simp only: simp_thms)
  have b: "fst (post_analyze compliant (example_world qloo (Some ''PERSONA'') (Some ''junk''))
                 (Inr (JObj example_body)))
     = Rendered \<lparr>result = ''{}'', culturalTwin = JStr ''Unknown'', countryInsights = []\<rparr>"
    using empty_country_insights [where renders = compliant, OF h, THEN conjunct2, THEN mp,
        OF _ run, THEN conjunct2, THEN conjunct1, THEN mp, OF _ compliant_example,
        of "Some ''junk''"]
    by (simp only: simp_thms)
  have n: "\<not> (\<lambda>payload. False)
               \<lparr>result = ''{}'', culturalTwin = JStr ''Unknown'', countryInsights = []\<rparr>"
    by simp
  have u: "fst (post_analyze (\<lambda>payload. False) (example_world qloo (Some ''PERSONA'') None)
                 (Inr (JObj example_body)))
     = Unhandled"
    using empty_country_insights [where renders = "\<lambda>payload. False", OF h, THEN conjunct2,
        THEN mp, OF _ run, THEN conjunct2, THEN conjunct2, THEN mp, OF _ n, of None]
    by (simp only: simp_thms)
  have c: "fst (generate_cultural_map_insights (example_world qloo (Some ''PERSONA'') (Some []))
            [''USA'', ''UK''] (JStr ''en'') []) = Inr []"
    using empty_country_insights [OF h, THEN conjunct1, THEN mp, OF _ english_example,
        of "Some []"]
    by (simp only: simp_thms)
  from a b u c show ?thesis by (intro conjI)
qed

text \<open>
  The provision is needed.  When the persona the model wrote has a \<^verbatim>\<open>culturalTwin\<close> that
  is \<^verbatim>\<open>nan\<close>, the handler returns its payload and the encoder refuses it: the request is
  answered with the bare status 500 although the persona part succeeded.
\<close>

lemma nan_twin_example:
  "fst (analyze_profile (example_world qloo (Some ''NAN TWIN'') None) (Inr (JObj example_body)))
     = Inr \<lparr>result = ''{}'', culturalTwin = JFloat NaN, countryInsights = []\<rparr>"
  "fst (post_analyze compliant (example_world qloo (Some ''NAN TWIN'') None)
          (Inr (JObj example_body))) = Unhandled"
  by code_simp+

subsection \<open>A missing required field\<close>

lemma analyze_body_returns_fields:
  assumes "analyze_body w body c = (Inr r, c')"
  shows "\<exists>movies music brands gender.
           py_subscript body ''movies'' = Inr movies \<and> py_subscript body ''music'' = Inr music
           \<and> py_subscript body ''brands'' = Inr brands
           \<and> py_subscript body ''gender'' = Inr gender"
  using assms unfolding analyze_body_def
  by (auto simp: io_pure_eq split_def dest!: io_bind_Inr)

lemma missing_field_fails:
  assumes "k \<in> {''movies'', ''music'', ''brands'', ''gender''}" and "map_of kvs k = None"
  shows "\<exists>e c. analyze_body w (JObj kvs) [] = (Inl e, c)"
proof (cases "analyze_body w (JObj kvs) []")
  case (Pair r c)
  show ?thesis
  proof (cases r)
    case (Inl e)
    with Pair show ?thesis by simp
  next
    case (Inr v)
    with Pair analyze_body_returns_fields [of w "JObj kvs" "[]" v c] assms
    show ?thesis by (auto split: option.splits)
  qed
qed

lemma gender_lookup_fails:
  assumes "map_of kvs ''gender'' = None"
    and "qloo_signals w (JObj kvs) [] = (Inr signals, c)"
  shows "analyze_body w (JObj kvs) [] = (Inl (KeyError ''gender''), c)"
proof -
  obtain variation language mt vt bt where s: "signals = (variation, language, mt, vt, bt)"
    by (cases signals) auto
  from qloo_signals_runs [OF assms(2) [unfolded s]] obtain music movies brands where
    "py_subscript (JObj kvs) ''music'' = Inr music"
    "py_subscript (JObj kvs) ''movies'' = Inr movies"
    "py_subscript (JObj kvs) ''brands'' = Inr brands"
    by blast
  with assms s show ?thesis
    by (simp add: analyze_body_def io_bind_def io_pure_def)
qed

text \<open>
  Claim C9, as the code has it.  A request whose body is an object without one of
  \<^verbatim>\<open>movies\<close>, \<^verbatim>\<open>music\<close>, \<^verbatim>\<open>brands\<close> and \<^verbatim>\<open>gender\<close> is never answered with status 200: it
  fails with status 500.  The handler looks the fields up in the order \<^verbatim>\<open>music\<close>,
  \<^verbatim>\<open>movies\<close>, \<^verbatim>\<open>brands\<close>, \<^verbatim>\<open>gender\<close>, with calls to the taste-graph service in between;
  when the calls that come before the lookup of the missing field return, the lookup
  raises \<^verbatim>\<open>KeyError\<close> and the detail of the answer is \<^verbatim>\<open>Analysis failed: \<close> followed by the
  quoted name of the field.
\<close>

theorem missing_required_field:
  "(k \<in> {''movies'', ''music'', ''brands'', ''gender''} \<and> map_of kvs k = None \<longrightarrow>
      (\<exists>d. fst (analyze_profile w (Inr (JObj kvs))) = Inl (HTTPException 500 d)))
   \<and> (map_of kvs ''music'' = None \<longrightarrow>
        fst (analyze_profile w (Inr (JObj kvs)))
          = Inl (HTTPException 500 (''Analysis failed: '' @ [CHR 0x27] @ ''music'' @ [CHR 0x27])))
   \<and> (map_of kvs ''music'' = Some music \<and> map_of kvs ''movies'' = None
        \<and> autocomplete_entity w music ''artist'' [] = (Inr music_id, c1) \<longrightarrow>
        fst (analyze_profile w (Inr (JObj kvs)))
          = Inl (HTTPException 500 (''Analysis failed: '' @ [CHR 0x27] @ ''movies'' @ [CHR 0x27])))
   \<and> (map_of kvs ''music'' = Some music \<and> map_of kvs ''movies'' = Some movies
        \<and> map_of kvs ''brands'' = None
        \<and> autocomplete_entity w music ''artist'' [] = (Inr music_id, c1)
        \<and> autocomplete_entity w movies ''movie'' c1 = (Inr movie_id, c2) \<longrightarrow>
        fst (analyze_profile w (Inr (JObj kvs)))
          = Inl (HTTPException 500 (''Analysis failed: '' @ [CHR 0x27] @ ''brands'' @ [CHR 0x27])))
   \<and> (map_of kvs ''gender'' = None
        \<and> qloo_signals w (JObj kvs) [] = (Inr signals, c) \<longrightarrow>
        fst (analyze_profile w (Inr (JObj kvs)))
          = Inl (HTTPException 500 (''Analysis failed: '' @ [CHR 0x27] @ ''gender'' @ [CHR 0x27])))"
proof (intro conjI impI)
  assume "k \<in> {''movies'', ''music'', ''brands'', ''gender''} \<and> map_of kvs k = None"
  then obtain e c where "analyze_body w (JObj kvs) [] = (Inl e, c)"
    using missing_field_fails by blast
  then show "\<exists>d. fst (analyze_profile w (Inr (JObj kvs))) = Inl (HTTPException 500 d)"
    by (simp add: analyze_profile_body)
next
  assume "map_of kvs ''music'' = None"
  then show "fst (analyze_profile w (Inr (JObj kvs)))
          = Inl (HTTPException 500 (''Analysis failed: '' @ [CHR 0x27] @ ''music'' @ [CHR 0x27]))"
    by (simp add: analyze_profile_body analyze_body_def qloo_signals_def io_bind_def io_pure_def)
next
  assume "map_of kvs ''music'' = Some music \<and> map_of kvs ''movies'' = None
        \<and> autocomplete_entity w music ''artist'' [] = (Inr music_id, c1)"
  then show "fst (analyze_profile w (Inr (JObj kvs)))
          = Inl (HTTPException 500 (''Analysis failed: '' @ [CHR 0x27] @ ''movies'' @ [CHR 0x27]))"
    by (simp add: analyze_profile_body analyze_body_def qloo_signals_def io_bind_def io_pure_def)
next
  assume "map_of kvs ''music'' = Some music \<and> map_of kvs ''movies'' = Some movies
        \<and> map_of kvs ''brands'' = None
        \<and> autocomplete_entity w music ''artist'' [] = (Inr music_id, c1)
        \<and> autocomplete_entity w movies ''movie'' c1 = (Inr movie_id, c2)"
  then show "fst (analyze_profile w (Inr (JObj kvs)))
          = Inl (HTTPException 500 (''Analysis failed: '' @ [CHR 0x27] @ ''brands'' @ [CHR 0x27]))"
    by (simp add: analyze_profile_body analyze_body_def qloo_signals_def io_bind_def io_pure_def)
next
  assume "map_of kvs ''gender'' = None
        \<and> qloo_signals w (JObj kvs) [] = (Inr signals, c)"
  then have "analyze_body w (JObj kvs) [] = (Inl (KeyError ''gender''), c)"
    using gender_lookup_fails by blast
  then show "fst (analyze_profile w (Inr (JObj kvs)))
          = Inl (HTTPException 500 (''Analysis failed: '' @ [CHR 0x27] @ ''gender'' @ [CHR 0x27]))"
    by (simp add: analyze_profile_body)
qed

lemma signals_without_gender:
  "qloo_signals (example_world qloo persona insights) (JObj (take 3 example_body)) [] =
     (Inr (JInt 0, JStr ''en'', [JStr ''Discovery'', JStr ''Homework''], [],
           [JStr ''Discovery'', JStr ''Homework'']),
      [Autocomplete ''Daft%20Punk'', Autocomplete ''Inception'', Autocomplete ''Nike'',
       Trending (JStr ''A1'') ''artist'', Trending (JStr ''B1'') ''brand''])"
  by code_simp

lemma no_gender_example: "map_of (take 3 example_body) ''gender'' = None"
  by code_simp

lemma no_music_example: "map_of [(''movies'', JStr ''Inception'')] ''music'' = None"
  by code_simp

theorem missing_required_field_witness:
  "fst (analyze_profile (example_world qloo None None) (Inr (JObj (take 3 example_body))))
     = Inl (HTTPException 500 (''Analysis failed: '' @ [CHR 0x27] @ ''gender'' @ [CHR 0x27]))
   \<and> fst (analyze_profile (example_world qloo None None)
            (Inr (JObj [(''movies'', JStr ''Inception'')])))
     = Inl (HTTPException 500 (''Analysis failed: '' @ [CHR 0x27] @ ''music'' @ [CHR 0x27]))"
proof
  have "map_of (take 3 example_body) ''gender'' = None
        \<and> qloo_signals (example_world qloo None None) (JObj (take 3 example_body)) [] =
     (Inr (JInt 0, JStr ''en'', [JStr ''Discovery'', JStr ''Homework''], [],
           [JStr ''Discovery'', JStr ''Homework'']),
      [Autocomplete ''Daft%20Punk'', Autocomplete ''Inception'', Autocomplete ''Nike'',
       Trending (JStr ''A1'') ''artist'', Trending (JStr ''B1'') ''brand''])"
    by (intro conjI no_gender_example signals_without_gender)
  then show "fst (analyze_profile (example_world qloo None None)
                (Inr (JObj (take 3 example_body))))
     = Inl (HTTPException 500 (''Analysis failed: '' @ [CHR 0x27] @ ''gender'' @ [CHR 0x27]))"
    by (rule missing_required_field [THEN conjunct2, THEN conjunct2, THEN conjunct2,
        THEN conjunct2, THEN mp])
next
  show "fst (analyze_profile (example_world qloo None None)
            (Inr (JObj [(''movies'', JStr ''Inception'')])))
     = Inl (HTTPException 500 (''Analysis failed: '' @ [CHR 0x27] @ ''music'' @ [CHR 0x27]))"
    by (rule missing_required_field [THEN conjunct2, THEN conjunct1, THEN mp,
        OF no_music_example])
qed

text \<open>
  Claim C9, as the specification has it, fails: the detail need not name the missing
  field.  The body below has no \<^verbatim>\<open>movies\<close>, and its \<^verbatim>\<open>music\<close> is the number 5.  The handler
  looks \<^verbatim>\<open>music\<close> up first and resolves it before it looks \<^verbatim>\<open>movies\<close> up; \<^verbatim>\<open>quote\<close> raises
  \<^verbatim>\<open>TypeError\<close> on the number, no call is made, and the request is answered with status 500
  and a detail that does not mention \<^verbatim>\<open>movies\<close>.
\<close>

theorem missing_required_field_counterexample:
  "analyze_profile (example_world qloo None None)
     (Inr (JObj [(''music'', JInt 5), (''brands'', JStr ''Nike''), (''gender'', JStr ''male'')]))
     = (Inl (HTTPException 500 ''Analysis failed: quote_from_bytes() expected bytes''), [])
   \<and> map_of [(''music'', JInt 5), (''brands'', JStr ''Nike''), (''gender'', JStr ''male'')]
        ''movies'' = None
   \<and> \<not> sublist ''movies'' ''Analysis failed: quote_from_bytes() expected bytes''"
  by code_simp

subsection \<open>The keys of the country insights\<close>

lemma dict_set_entries:
  "(k', v') \<in> set (dict_set d k v) \<Longrightarrow>
   (k', v') \<in> set d \<or> (v' = v \<and> (k' = k \<or> (\<exists>u. (k', u) \<in> set d)))"
  by (induction d) (auto split: if_splits)

lemma country_dict_entries:
  assumes "country_dict items d = Inr d'"
    and "set items \<subseteq> S"
    and "\<forall>(k, v) \<in> set d. v \<in> S \<and> (\<exists>item \<in> S. py_subscript item ''country'' = Inr k)"
  shows "\<forall>(k, v) \<in> set d'. v \<in> S \<and> (\<exists>item \<in> S. py_subscript item ''country'' = Inr k)"
  using assms
proof (induction items arbitrary: d)
  case Nil
  then show ?case by simp
next
  case (Cons item items)
  show ?case
  proof (cases "py_contains ''country'' item")
    case (Inl e)
    with Cons.prems(1) show ?thesis by simp
  next
    case (Inr b)
    show ?thesis
    proof (cases b)
      case False
      with Inr Cons show ?thesis by simp
    next
      case True
      show ?thesis
      proof (cases "py_subscript item ''country''")
        case (Inl e)
        with Inr True Cons.prems(1) show ?thesis by simp
      next
        case key: (Inr k)
        show ?thesis
        proof (cases "hashable k")
          case False
          with Inr True key Cons.prems(1) show ?thesis by simp
        next
          case h: True
          with Inr True key Cons.prems(1)
          have run: "country_dict items (dict_set d k item) = Inr d'" by simp
          have "\<forall>(k', v') \<in> set (dict_set d k item).
                  v' \<in> S \<and> (\<exists>item \<in> S. py_subscript item ''country'' = Inr k')"
            using Cons.prems(2,3) key by (fastforce dest: dict_set_entries)
          with Cons.IH [OF run] Cons.prems(2) show ?thesis by simp
        qed
      qed
    qed
  qed
qed

text \<open>
  Claim C1, as the code has it.  The synthesizer keys the mapping by what the model wrote:
  every key is the \<^verbatim>\<open>country\<close> value of an item of the parsed output, and every value is
  such an item.  The countries passed in take no part in it.
\<close>

theorem country_keys:
  assumes "countries \<noteq> []"
    and "target_language language = Inr target"
    and "chat_create w (length calls) (CulturalChat countries target) = Inr (Some content # rest)"
    and "json_loads w content = Inr parsed"
    and "py_iter parsed = Inr items"
  shows "\<exists>d. fst (generate_cultural_map_insights w countries language calls) = Inr d
           \<and> (\<forall>(k, v) \<in> set d.
                 v \<in> set items \<and> (\<exists>item \<in> set items. py_subscript item ''country'' = Inr k))"
proof (cases "content = []")
  case True
  with assms(1-3) show ?thesis
    by (simp add: generate_cultural_map_insights_def io_bind_def io_pure_def chat_def)
next
  case False
  with assms(1-3)
  have res: "fst (generate_cultural_map_insights w countries language calls)
               = Inr (parse_cultural_map w content)"
    by (simp add: generate_cultural_map_insights_def io_bind_def io_pure_def chat_def)
  have "\<forall>(k, v) \<in> set (parse_cultural_map w content).
          v \<in> set items \<and> (\<exists>item \<in> set items. py_subscript item ''country'' = Inr k)"
  proof (cases "country_dict items []")
    case (Inl e)
    with assms(4,5) show ?thesis by (simp add: parse_cultural_map_def and_then_simps)
  next
    case (Inr d)
    from country_dict_entries [OF Inr, of "set items"]
    have "\<forall>(k, v) \<in> set d.
            v \<in> set items \<and> (\<exists>item \<in> set items. py_subscript item ''country'' = Inr k)"
      by simp
    with Inr assms(4,5) show ?thesis by (simp add: parse_cultural_map_def and_then_simps)
  qed
  with res show ?thesis by blast
qed

lemma loads_france_example:
  "json_loads (example_world service persona insights) ''FRANCE''
     = Inr (JArr [JObj [(''country'', JStr ''France''), (''culturalInsight'', JStr ''Cinema''),
                        (''recommendation'', JStr ''Amelie'')]])"
  by (simp add: example_world_def loads_def)

lemma france_insights_example:
  "fst (generate_cultural_map_insights (example_world not_found None (Some ''FRANCE''))
          [''USA'', ''South Korea'', ''UK'', ''Japan''] (JStr ''en'') [])
     = Inr [(JStr ''France'',
             JObj [(''country'', JStr ''France''), (''culturalInsight'', JStr ''Cinema''),
                   (''recommendation'', JStr ''Amelie'')])]"
  by code_simp

theorem country_keys_witness:
  "fst (generate_cultural_map_insights (example_world not_found None (Some ''FRANCE''))
          [''USA'', ''South Korea'', ''UK'', ''Japan''] (JStr ''en'') [])
     = Inr [(JStr ''France'',
             JObj [(''country'', JStr ''France''), (''culturalInsight'', JStr ''Cinema''),
                   (''recommendation'', JStr ''Amelie'')])]
   \<and> py_subscript
         (JObj [(''country'', JStr ''France''), (''culturalInsight'', JStr ''Cinema''),
                (''recommendation'', JStr ''Amelie'')])
         ''country''
       = Inr (JStr ''France'')"
proof -
  have ne: "[''USA'', ''South Korea'', ''UK'', ''Japan''] \<noteq> []" by simp
  have reply: "chat_create (example_world not_found None (Some ''FRANCE'')) (length [])
                 (CulturalChat [''USA'', ''South Korea'', ''UK'', ''Japan''] ''English'')
               = Inr (Some ''FRANCE'' # [])"
    by (simp add: example_world_def gpt_def)
  have it: "py_iter (JArr [JObj [(''country'', JStr ''France''),
                                 (''culturalInsight'', JStr ''Cinema''),
                                 (''recommendation'', JStr ''Amelie'')]])
            = Inr [JObj [(''country'', JStr ''France''), (''culturalInsight'', JStr ''Cinema''),
                         (''recommendation'', JStr ''Amelie'')]]"
    by simp
  from country_keys [OF ne english_example reply loads_france_example it]
  obtain d where
    d: "fst (generate_cultural_map_insights (example_world not_found None (Some ''FRANCE''))
              [''USA'', ''South Korea'', ''UK'', ''Japan''] (JStr ''en'') []) = Inr d"
    and q: "\<forall>(k, v) \<in> set d.
              v \<in> set [JObj [(''country'', JStr ''France''),
                              (''culturalInsight'', JStr ''Cinema''),
                              (''recommendation'', JStr ''Amelie'')]]
              \<and> (\<exists>item \<in> set [JObj [(''country'', JStr ''France''),
                                       (''culturalInsight'', JStr ''Cinema''),
                                       (''recommendation'', JStr ''Amelie'')]].
                    py_subscript item ''country'' = Inr k)"
    by blast
  from d have e: "d = [(JStr ''France'',
             JObj [(''country'', JStr ''France''), (''culturalInsight'', JStr ''Cinema''),
                   (''recommendation'', JStr ''Amelie'')])]"
    by (simp add: france_insights_example)
  from q show ?thesis
    unfolding e by (simp add: france_insights_example)
qed

text \<open>
  Claim C1, as the specification has it, fails: when the model writes about France, the
  answer of a successful request has the key \<^verbatim>\<open>France\<close>, which is none of the four
  countries the handler asked about.
\<close>

theorem country_keys_counterexample:
  "fst (analyze_profile (example_world not_found (Some ''PERSONA'') (Some ''FRANCE''))
          (Inr (JObj example_body)))
     = Inr \<lparr>result = ''{}'', culturalTwin = JStr ''Unknown'',
            countryInsights =
              [(JStr ''France'',
                JObj [(''country'', JStr ''France''), (''culturalInsight'', JStr ''Cinema''),
                      (''recommendation'', JStr ''Amelie'')])]\<rparr>
   \<and> JStr ''France'' \<notin> set [JStr ''USA'', JStr ''South Korea'', JStr ''UK'', JStr ''Japan'']"
  by code_simp

subsection \<open>The sampling temperature\<close>

text \<open>
  The three values the specification names: the float nearest to \<open>0.8\<close> for seed 0, and
  \<open>2.0\<close> for the seeds 24 and 100.  For seed 1 the two roundings give
  \<open>0.8500000000000001\<close>, the float above the one nearest to \<open>0.85\<close>.
\<close>

lemma temperature_examples:
  "capped_temperature (JInt 0) = Inr (round_double (8 / 10))"
  "capped_temperature (JInt 24) = Inr (Finite 2)"
  "capped_temperature (JInt 100) = Inr (Finite 2)"
  "capped_temperature (JInt 1) = Inr (Finite (1914029841632461 / 2251799813685248))"
  "round_double (85 / 100) = Finite (7656119366529843 / 9007199254740992)"
  by code_simp+

text \<open>A temperature that is computed is never above \<open>2.0\<close>.\<close>

lemma temperature_capped:
  assumes "capped_temperature variation_seed = Inr temperature"
  shows "\<not> flt (Finite 2) temperature"
proof -
  have two: "round_double 2 = Finite 2" by code_simp
  from assms obtain p where
    "temperature = py_min (fadd (round_double (8 / 10)) p) (Finite 2)"
    by (auto simp: capped_temperature_def Let_def two split: sum.splits)
  then show ?thesis by (simp add: py_min_def)
qed

lemma bit_length_gt: "2 ^ k \<le> n \<Longrightarrow> k < bit_length n"
proof (induction k arbitrary: n)
  case 0
  then show ?case by (subst bit_length.simps) simp
next
  case (Suc k)
  then have "2 ^ k \<le> n div 2" by simp
  then have "k < bit_length (n div 2)" by (rule Suc.IH)
  moreover have "(0::int) < 2 ^ Suc k" by simp
  with Suc.prems have "0 < n" by linarith
  ultimately show ?case by (subst bit_length.simps) simp
qed

text \<open>An integer from \<open>2 ^ 1024\<close> on has no float: the conversion raises.\<close>

lemma float_of_int_overflow:
  assumes "2 ^ 1024 \<le> n"
  shows "float_of_int n = Inl (OverflowError ''int too large to convert to float'')"
proof -
  have "(0::int) < 2 ^ 1024" by simp
  with assms have pos: "0 < n" by linarith
  then have one: "(1::rat) \<le> of_int n" by simp
  have "1024 < bit_length n" using assms by (rule bit_length_gt)
  with one have "1024 \<le> binade (of_int n)" by (simp add: binade_def)
  moreover from pos have "\<bar>of_int n :: rat\<bar> = of_int n" "(of_int n :: rat) \<noteq> 0" "(0::rat) < of_int n"
    by simp_all
  ultimately have "round_double (of_int n) = PosInf"
    by (simp add: round_double_def Let_def)
  then show ?thesis by (simp add: float_of_int_def)
qed

lemma temperature_overflow:
  "2 ^ 1024 \<le> n \<Longrightarrow>
   capped_temperature (JInt n) = Inl (OverflowError ''int too large to convert to float'')"
  by (simp add: capped_temperature_def float_of_int_overflow)

lemma signals_huge_variation:
  "qloo_signals (example_world not_found persona insights)
     (JObj ((''variation'', JInt (10 ^ 400)) # example_body)) [] =
     (Inr (JInt (10 ^ 400), JStr ''en'', [], [], []),
      [Autocomplete ''Daft%20Punk'', Autocomplete ''Inception'', Autocomplete ''Nike''])"
  by code_simp

text \<open>
  Claim C2 at a seed the cap cannot absorb.  The body carries \<^verbatim>\<open>variation\<close> \<open>= 10 ^ 400\<close>.
  The product \<^verbatim>\<open>variation_seed * 0.05\<close> raises \<^verbatim>\<open>OverflowError\<close> before \<^verbatim>\<open>min\<close> is
  reached: no temperature is computed, the model is not called, and the request is
  answered with status 500.
\<close>

theorem huge_variation_overflow:
  "analyze_profile (example_world not_found (Some ''PERSONA'') None)
     (Inr (JObj ((''variation'', JInt (10 ^ 400)) # example_body)))
   = (Inl (HTTPException 500 ''Analysis failed: int too large to convert to float''),
      [Autocomplete ''Daft%20Punk'', Autocomplete ''Inception'', Autocomplete ''Nike''])"
proof -
  have "(2::int) ^ 1024 \<le> 10 ^ 400" by simp
  then have t: "capped_temperature (JInt (10 ^ 400))
                  = Inl (OverflowError ''int too large to convert to float'')"
    by (rule temperature_overflow)
  have f: "py_subscript (JObj ((''variation'', JInt (10 ^ 400)) # example_body)) k
             = py_subscript (JObj example_body) k"
    if "k \<noteq> ''variation''" for k
    using that by simp
  show ?thesis
    by (simp add: analyze_profile_body analyze_body_def io_bind_def io_pure_def
        signals_huge_variation f fields_example gender_example
        generate_persona_from_taste_def english_example t
        del: py_subscript.simps target_language.simps power_numeral)
qed

end
